theory Spec2Isabelle
  imports Main "HOL-Library.Word" "HOL-Library.AList"
begin

section \<open>Data model of HWComposer.cpp\<close>

text \<open>
  The embedding follows \<^verbatim>\<open>services/surfaceflinger/DisplayHardware/HWComposer.cpp\<close>.
  Member functions of \<^verbatim>\<open>impl::HWComposer\<close> become functions that take the object's state
  and return the updated state next to the C++ return value. Calls that leave the file
  (into \<^verbatim>\<open>Hwc2::Composer\<close> and \<^verbatim>\<open>HWC2::Display\<close>) cannot be computed here: the value
  such a call hands back is an argument of the model (its \<^emph>\<open>reply\<close>), and the fact that the
  call was made is appended to the field \<open>calls\<close> of the state, in program order.
\<close>

type_synonym HWDisplayId = "64 word"
  \<comment> \<open>\<^verbatim>\<open>hal::HWDisplayId\<close>, the handle assigned by the device\<close>
type_synonym DisplayId = "64 word"
  \<comment> \<open>\<^verbatim>\<open>DisplayId::value\<close>; PhysicalDisplayId, HalVirtualDisplayId and HalDisplayId wrap it\<close>
type_synonym Layer = "64 word"
  \<comment> \<open>\<^verbatim>\<open>HWC2::Layer*\<close>, used only as a key\<close>
type_synonym nsecs_t = "64 word"
  \<comment> \<open>\<^verbatim>\<open>int64_t\<close>; read as signed with \<open>sint\<close>\<close>
type_synonym time_point = int
  \<comment> \<open>\<^verbatim>\<open>std::chrono::steady_clock::time_point\<close>\<close>
type_synonym PixelFormat = "32 word"
type_synonym Dataspace = "32 word"
type_synonym GraphicBuffer = "64 word"

text \<open>
  Modelled from the spec: \<^verbatim>\<open>hal::Error\<close> is declared in the composer HAL headers, which
  are not part of the sources at hand. The spec speaks of a success code and of "a device
  error code representing has pending changes"; the other names are the codes the file
  itself mentions plus the remaining HAL codes.
\<close>

datatype Error =
    NONE | BAD_CONFIG | BAD_DISPLAY | BAD_LAYER | BAD_PARAMETER | HAS_CHANGES
  | NO_RESOURCES | NOT_VALIDATED | UNSUPPORTED | SEAMLESS_NOT_ALLOWED | SEAMLESS_NOT_POSSIBLE

text \<open>
  Modelled from the spec: \<^verbatim>\<open>hasChangesError\<close> lives in a header outside the sources; the
  spec says that the code for "has pending changes" is treated as success.
\<close>

definition hasChangesError :: "Error \<Rightarrow> bool" where
  "hasChangesError error = (error = HAS_CHANGES)"

datatype status_t = NO_ERROR | BAD_INDEX | BAD_VALUE | UNKNOWN_ERROR | INVALID_OPERATION

text \<open>
  \<^verbatim>\<open>sp<Fence>\<close>: a null pointer, the shared sentinel \<^verbatim>\<open>Fence::NO_FENCE\<close>, or a fence
  wrapping a file descriptor.
\<close>

datatype Fence = NullFence | NO_FENCE | FenceFd nat

datatype DisplayType = PHYSICAL | VIRTUAL

datatype Vsync = ENABLE | DISABLE

text \<open>
  \<^verbatim>\<open>HWC2::Display\<close>, as far as the file reads and writes it through \<^verbatim>\<open>getId\<close>,
  \<^verbatim>\<open>isConnected\<close> and \<^verbatim>\<open>setConnected\<close>.
\<close>

record Display =
  mId :: HWDisplayId
  mType :: DisplayType
  mIsConnected :: bool

text \<open>
  The per-display state. Members that none of the functions below reads or writes (the
  output buffer of a virtual display, the vsync lock) are left out.
\<close>

record DisplayData =
  isVirtual :: bool
  hwcDisplay :: Display
  lastPresentFence :: Fence
  releaseFences :: "Layer \<rightharpoonup> Fence"
  validateWasSkipped :: bool
  presentError :: Error
  vsyncTraceToggle :: bool
  vsyncEnabled :: Vsync
  lastHwVsync :: nsecs_t

record ClientTargetProperty =
  pixelFormat :: PixelFormat
  dataspace :: Dataspace

record DeviceRequestedChanges =
  changedTypes :: "(Layer \<times> 32 word) list"
  displayRequests :: "32 word"
  layerRequests :: "(Layer \<times> 32 word) list"
  clientTargetProperty :: ClientTargetProperty

text \<open>The calls that the file issues on the device, as they appear in \<open>calls\<close>.\<close>

datatype HwcCall =
    CreateVirtualDisplay "32 word" "32 word" PixelFormat "HWDisplayId option"
  | GetDisplayIdentificationData HWDisplayId
  | SetClientTarget HWDisplayId "32 word" GraphicBuffer Fence Dataspace
  | PresentOrValidate HWDisplayId
  | Validate HWDisplayId
  | GetReleaseFences HWDisplayId
  | GetChangedCompositionTypes HWDisplayId
  | GetRequests HWDisplayId
  | GetClientTargetProperty HWDisplayId
  | AcceptChanges HWDisplayId
  | ExecuteCommands
  | Present HWDisplayId
  | SleepUntil time_point

text \<open>
  The members of \<^verbatim>\<open>impl::HWComposer\<close>, and the trace \<open>calls\<close>. The two unordered maps are
  a partial function and an association list (the code asks the second whether it is
  empty); \<^verbatim>\<open>size_t\<close> has 64 bits.
\<close>

record HWComposer =
  mDisplayData :: "DisplayId \<rightharpoonup> DisplayData"
  mPhysicalDisplayIdMap :: "(HWDisplayId \<times> DisplayId) list"
  mInternalHwcDisplayId :: "HWDisplayId option"
  mExternalHwcDisplayId :: "HWDisplayId option"
  mHasMultiDisplaySupport :: bool
  mMaxVirtualDisplayDimension :: "64 word"
  mUpdateDeviceProductInfoOnHotplugReconnect :: bool
  calls :: "HwcCall list"

definition issue :: "HwcCall \<Rightarrow> HWComposer \<Rightarrow> HWComposer" where
  "issue c s = s\<lparr>calls := calls s @ [c]\<rparr>"

text \<open>The calls made between an earlier state \<open>s\<close> and a later state \<open>s'\<close>.\<close>

definition issued :: "HWComposer \<Rightarrow> HWComposer \<Rightarrow> HwcCall list" where
  "issued s s' = drop (length (calls s)) (calls s')"

text \<open>
  Modelled from the spec: \<^verbatim>\<open>struct DisplayData\<close> is declared in HWComposer.h, outside the
  sources. A record is only ever created by \<^verbatim>\<open>mDisplayData[displayId]\<close> in the two
  allocation functions, which store the display object at once; the remaining members
  start as the spec's data model describes them (no fence, no pending release fences,
  validation not skipped, vsync disabled, no vsync seen).
\<close>

definition newDisplayData :: "Display \<Rightarrow> DisplayData" where
  "newDisplayData display =
     \<lparr>isVirtual = False, hwcDisplay = display, lastPresentFence = NO_FENCE,
      releaseFences = Map.empty, validateWasSkipped = False, presentError = NONE,
      vsyncTraceToggle = False, vsyncEnabled = DISABLE, lastHwVsync = 0\<rparr>"

section \<open>Translation helpers\<close>

definition toPhysicalDisplayId :: "HWComposer \<Rightarrow> HWDisplayId \<Rightarrow> DisplayId option" where
  "toPhysicalDisplayId s hwcDisplayId = map_of (mPhysicalDisplayIdMap s) hwcDisplayId"

definition fromPhysicalDisplayId :: "HWComposer \<Rightarrow> DisplayId \<Rightarrow> HWDisplayId option" where
  "fromPhysicalDisplayId s displayId =
     (case mDisplayData s displayId of
        None \<Rightarrow> None
      | Some displayData \<Rightarrow>
          if \<not> isVirtual displayData then Some (mId (hwcDisplay displayData)) else None)"

definition fromVirtualDisplayId :: "HWComposer \<Rightarrow> DisplayId \<Rightarrow> HWDisplayId option" where
  "fromVirtualDisplayId s displayId =
     (case mDisplayData s displayId of
        None \<Rightarrow> None
      | Some displayData \<Rightarrow>
          if isVirtual displayData then Some (mId (hwcDisplay displayData)) else None)"

definition isConnected :: "HWComposer \<Rightarrow> DisplayId \<Rightarrow> bool" where
  "isConnected s displayId =
     (case mDisplayData s displayId of
        None \<Rightarrow> False
      | Some displayData \<Rightarrow> mIsConnected (hwcDisplay displayData))"

section \<open>Fence tracker\<close>

definition getPresentFence :: "HWComposer \<Rightarrow> DisplayId \<Rightarrow> Fence" where
  "getPresentFence s displayId =
     (case mDisplayData s displayId of
        None \<Rightarrow> NO_FENCE
      | Some displayData \<Rightarrow> lastPresentFence displayData)"

definition getLayerReleaseFence :: "HWComposer \<Rightarrow> DisplayId \<Rightarrow> Layer \<Rightarrow> Fence" where
  "getLayerReleaseFence s displayId layer =
     (case mDisplayData s displayId of
        None \<Rightarrow> NO_FENCE
      | Some displayData \<Rightarrow>
          (case releaseFences displayData layer of
             None \<Rightarrow> NO_FENCE
           | Some fence \<Rightarrow> fence))"

definition clearReleaseFences :: "HWComposer \<Rightarrow> DisplayId \<Rightarrow> HWComposer" where
  "clearReleaseFences s displayId =
     (case mDisplayData s displayId of
        None \<Rightarrow> s
      | Some displayData \<Rightarrow>
          s\<lparr>mDisplayData := (mDisplayData s)(displayId \<mapsto> displayData\<lparr>releaseFences := Map.empty\<rparr>)\<rparr>)"

section \<open>Client target\<close>

text \<open>\<open>reply\<close> is what \<^verbatim>\<open>hwcDisplay->setClientTarget\<close> returns when it is called.\<close>

definition setClientTarget ::
  "HWComposer \<Rightarrow> DisplayId \<Rightarrow> 32 word \<Rightarrow> Fence \<Rightarrow> GraphicBuffer \<Rightarrow> Dataspace \<Rightarrow> Error
     \<Rightarrow> status_t \<times> HWComposer" where
  "setClientTarget s displayId slot acquireFence target dspace reply =
     (case mDisplayData s displayId of
        None \<Rightarrow> (BAD_INDEX, s)
      | Some displayData \<Rightarrow>
          if validateWasSkipped displayData then (NO_ERROR, s)
          else
            let s1 = issue (SetClientTarget (mId (hwcDisplay displayData)) slot target
                              acquireFence dspace) s
            in if reply \<noteq> NONE then (BAD_VALUE, s1) else (NO_ERROR, s1))"

section \<open>Composition negotiation\<close>

text \<open>
  What \<^verbatim>\<open>hwcDisplay->presentOrValidate\<close> hands back: its return value and the values of
  its four out-parameters after the call (\<^verbatim>\<open>state\<close> starts as \<^verbatim>\<open>UINT32_MAX\<close> and the
  fence as a null pointer, so a device that writes nothing is the reply with those values).
\<close>

record PresentOrValidateReply =
  pov_error :: Error
  pov_numTypes :: "32 word"
  pov_numRequests :: "32 word"
  pov_outPresentFence :: Fence
  pov_state :: "32 word"

text \<open>The replies of the device calls that one \<open>getDeviceCompositionChanges\<close> can make.\<close>

record CompositionReplies =
  presentOrValidate_reply :: PresentOrValidateReply
  validate_reply :: "Error \<times> 32 word \<times> 32 word"
  getReleaseFences_reply :: "Error \<times> (Layer \<rightharpoonup> Fence)"
  getChangedCompositionTypes_reply :: "Error \<times> (Layer \<times> 32 word) list"
  getRequests_reply :: "Error \<times> 32 word \<times> (Layer \<times> 32 word) list"
  getClientTargetProperty_reply :: "Error \<times> ClientTargetProperty"
  acceptChanges_reply :: Error

definition setDisplayData :: "HWComposer \<Rightarrow> DisplayId \<Rightarrow> DisplayData \<Rightarrow> HWComposer" where
  "setDisplayData s displayId displayData =
     s\<lparr>mDisplayData := (mDisplayData s)(displayId \<mapsto> displayData)\<rparr>"

definition canSkipValidate :: bool where
  "canSkipValidate = True"

text \<open>
  The second half of \<open>getDeviceCompositionChanges\<close>, from the log line "SkipValidate
  failed, Falling back to SLOW validate/present" to the end: \<open>error\<close> and
  \<open>acceptChanges\<close> are the local variables of that name as the first half left them.
  \<^verbatim>\<open>reserve\<close> has no effect on the vectors' contents and is left out; the error of
  \<^verbatim>\<open>getClientTargetProperty\<close> is assigned and never read.
\<close>

definition slowValidate ::
  "HWComposer \<Rightarrow> HWDisplayId \<Rightarrow> CompositionReplies \<Rightarrow> Error \<Rightarrow> bool
     \<Rightarrow> DeviceRequestedChanges option
     \<Rightarrow> status_t \<times> DeviceRequestedChanges option \<times> HWComposer" where
  "slowValidate s hwcId dev error acceptChanges outChanges =
     (if \<not> hasChangesError error \<and> error \<noteq> NONE then (BAD_INDEX, outChanges, s)
      else
        let s1 = issue (GetChangedCompositionTypes hwcId) s in
        if fst (getChangedCompositionTypes_reply dev) \<noteq> NONE then (BAD_INDEX, outChanges, s1)
        else
          let s2 = issue (GetRequests hwcId) s1 in
          if fst (getRequests_reply dev) \<noteq> NONE then (BAD_INDEX, outChanges, s2)
          else
            let s3 = issue (GetClientTargetProperty hwcId) s2;
                changes = Some \<lparr>changedTypes = snd (getChangedCompositionTypes_reply dev),
                                displayRequests = fst (snd (getRequests_reply dev)),
                                layerRequests = snd (snd (getRequests_reply dev)),
                                clientTargetProperty = snd (getClientTargetProperty_reply dev)\<rparr>
            in
              if acceptChanges then
                let s4 = issue (AcceptChanges hwcId) s3 in
                if acceptChanges_reply dev \<noteq> NONE then (BAD_INDEX, changes, s4)
                else (NO_ERROR, changes, s4)
              else (NO_ERROR, changes, s3))"

text \<open>
  \<open>outChanges\<close> is the optional the caller's pointer refers to: the function returns its
  value after the call. The three unused parameters of the C++ function are left out.
\<close>

definition getDeviceCompositionChanges ::
  "HWComposer \<Rightarrow> DisplayId \<Rightarrow> CompositionReplies \<Rightarrow> DeviceRequestedChanges option
     \<Rightarrow> status_t \<times> DeviceRequestedChanges option \<times> HWComposer" where
  "getDeviceCompositionChanges s displayId dev outChanges =
     (case mDisplayData s displayId of
        None \<Rightarrow> (BAD_INDEX, outChanges, s)
      | Some displayData \<Rightarrow>
          if \<not> mIsConnected (hwcDisplay displayData) then (NO_ERROR, outChanges, s)
          else
            let hwcId = mId (hwcDisplay displayData);
                displayData1 = displayData\<lparr>validateWasSkipped := False\<rparr>;
                s0 = setDisplayData s displayId displayData1
            in
              if canSkipValidate then
                let s1 = issue (PresentOrValidate hwcId) s0;
                    reply = presentOrValidate_reply dev;
                    error = pov_error reply;
                    state = pov_state reply
                in
                  if \<not> hasChangesError error \<and> error \<noteq> NONE then (UNKNOWN_ERROR, outChanges, s1)
                  else
                    let fences = getReleaseFences_reply dev;
                        captured = (state = 1 \<or> state = 2);
                        error2 = (if captured then fst fences else error);
                        s2 = (if captured
                              then setDisplayData (issue (GetReleaseFences hwcId) s1) displayId
                                     (displayData1\<lparr>releaseFences := snd fences,
                                                   lastPresentFence := pov_outPresentFence reply,
                                                   validateWasSkipped := True,
                                                   presentError := fst fences\<rparr>)
                              else s1)
                    in
                      if state = 1 then (NO_ERROR, outChanges, s2)
                      else slowValidate s2 hwcId dev error2 (state \<noteq> 2) outChanges
              else
                slowValidate (issue (Validate hwcId) s0) hwcId dev (fst (validate_reply dev))
                  True outChanges)"

section \<open>Present\<close>

text \<open>
  Modelled from the spec: \<^verbatim>\<open>Fence::SIGNAL_TIME_PENDING\<close> is declared in ui/Fence.h, outside
  the sources; it is the signal time of a fence that "is still pending", the largest
  \<^verbatim>\<open>int64_t\<close>.
\<close>

definition SIGNAL_TIME_PENDING :: nsecs_t where
  "SIGNAL_TIME_PENDING = 0x7FFFFFFFFFFFFFFF"

text \<open>
  The replies of the device calls that one \<open>presentAndGetReleaseFences\<close> can make.
  \<^verbatim>\<open>present\<close> receives a pointer to the stored present fence: the second component is the
  fence it stores there, or \<open>None\<close> when it leaves the pointee as it found it.
\<close>

record PresentReplies =
  executeCommands_reply :: Error
  present_reply :: "Error \<times> Fence option"
  releaseFences_reply :: "Error \<times> (Layer \<rightharpoonup> Fence)"

text \<open>
  \<open>previousSignalTime\<close> is what \<^verbatim>\<open>previousPresentFence->getSignalTime()\<close> returns.
\<close>

definition presentAndGetReleaseFences ::
  "HWComposer \<Rightarrow> DisplayId \<Rightarrow> time_point \<Rightarrow> nsecs_t \<Rightarrow> PresentReplies
     \<Rightarrow> status_t \<times> HWComposer" where
  "presentAndGetReleaseFences s displayId earliestPresentTime previousSignalTime dev =
     (case mDisplayData s displayId of
        None \<Rightarrow> (BAD_INDEX, s)
      | Some displayData \<Rightarrow>
          let hwcId = mId (hwcDisplay displayData) in
          if validateWasSkipped displayData then
            let s1 = issue ExecuteCommands
                       (setDisplayData s displayId (displayData\<lparr>validateWasSkipped := False\<rparr>))
            in
              if executeCommands_reply dev \<noteq> NONE then (UNKNOWN_ERROR, s1)
              else if presentError displayData \<noteq> NONE then (UNKNOWN_ERROR, s1)
              else (NO_ERROR, s1)
          else
            let displayData1 = displayData\<lparr>lastPresentFence := NO_FENCE\<rparr>;
                s1 = setDisplayData s displayId displayData1;
                previousFramePending = (previousSignalTime = SIGNAL_TIME_PENDING);
                s2 = (if \<not> previousFramePending then issue (SleepUntil earliestPresentTime) s1
                      else s1);
                s3 = issue (Present hwcId) s2;
                displayData2 = (case snd (present_reply dev) of
                                  None \<Rightarrow> displayData1
                                | Some fence \<Rightarrow> displayData1\<lparr>lastPresentFence := fence\<rparr>);
                s4 = setDisplayData s3 displayId displayData2
            in
              if fst (present_reply dev) \<noteq> NONE then (UNKNOWN_ERROR, s4)
              else
                let s5 = issue (GetReleaseFences hwcId) s4 in
                if fst (releaseFences_reply dev) \<noteq> NONE then (UNKNOWN_ERROR, s5)
                else (NO_ERROR,
                      setDisplayData s5 displayId
                        (displayData2\<lparr>releaseFences := snd (releaseFences_reply dev)\<rparr>)))"

section \<open>Vsync filter\<close>

text \<open>
  \<^verbatim>\<open>LOG_FATAL_IF\<close> on a virtual display aborts the process (in a build that keeps the
  assertion): the result \<open>None\<close>. Otherwise
  the result is the returned flag and the updated state. Logging and the trace counter
  (\<^verbatim>\<open>ATRACE_INT\<close>) are not part of the state; the toggle that feeds the counter is.
\<close>

definition onVsync :: "HWComposer \<Rightarrow> HWDisplayId \<Rightarrow> nsecs_t \<Rightarrow> (bool \<times> HWComposer) option" where
  "onVsync s hwcDisplayId timestamp =
     (case toPhysicalDisplayId s hwcDisplayId of
        None \<Rightarrow> Some (False, s)
      | Some displayId \<Rightarrow>
          (case mDisplayData s displayId of
             None \<Rightarrow> Some (False, s)
           | Some displayData \<Rightarrow>
               if isVirtual displayData then None
               else if timestamp = lastHwVsync displayData then Some (False, s)
               else
                 let displayData1 = displayData\<lparr>lastHwVsync := timestamp\<rparr>;
                     displayData2 = displayData1\<lparr>vsyncTraceToggle := \<not> vsyncTraceToggle displayData1\<rparr>
                 in Some (True, setDisplayData s displayId displayData2)))"

text \<open>
  A run of vsync callbacks for one handle, one call of \<open>onVsync\<close> per timestamp in the
  order of arrival: the timestamps for which \<open>onVsync\<close> returned true (the ones the caller
  forwards), and the final state.
\<close>

fun forwardedVsyncs ::
  "HWComposer \<Rightarrow> HWDisplayId \<Rightarrow> nsecs_t list \<Rightarrow> (nsecs_t list \<times> HWComposer) option" where
  "forwardedVsyncs s hwcDisplayId [] = Some ([], s)"
| "forwardedVsyncs s hwcDisplayId (timestamp # rest) =
     (case onVsync s hwcDisplayId timestamp of
        None \<Rightarrow> None
      | Some (accepted, s1) \<Rightarrow>
          (case forwardedVsyncs s1 hwcDisplayId rest of
             None \<Rightarrow> None
           | Some (forwarded, s2) \<Rightarrow>
               Some ((if accepted then [timestamp] else []) @ forwarded, s2)))"

section \<open>Display registry\<close>

record Size =
  width :: "32 word"
  height :: "32 word"

type_synonym DisplayIdentificationData = "8 word list"
type_synonym DeviceProductInfo = string

record DisplayIdentificationInfo =
  id' :: DisplayId
  name :: string
  deviceProductInfo :: "DeviceProductInfo option"

text \<open>
  Functions and constants that the file uses and that are declared outside the sources
  (ui/Size.h, ui/DisplayId.h, DisplayIdentification.h). They are parameters of the model:
  every theorem below holds for each choice of them.
\<close>

record Externals =
  isValid :: "Size \<Rightarrow> bool"
  fromPort :: "8 word \<Rightarrow> DisplayId"
  parseDisplayIdentificationData ::
    "8 word \<Rightarrow> DisplayIdentificationData \<Rightarrow> DisplayIdentificationInfo option"
  LEGACY_DISPLAY_TYPE_PRIMARY :: "8 word"
  LEGACY_DISPLAY_TYPE_EXTERNAL :: "8 word"

text \<open>
  \<open>reply\<close> is what \<^verbatim>\<open>mComposer->createVirtualDisplay\<close> hands back: its error and the handle
  it assigned. The pixel format travels to the device by pointer and is not read again.
  \<^verbatim>\<open>width\<close> and \<^verbatim>\<open>height\<close> are the 32 bits of the resolution read as unsigned, and are
  compared with the 64-bit bound as unsigned numbers.
\<close>

definition allocateVirtualDisplay ::
  "Externals \<Rightarrow> HWComposer \<Rightarrow> DisplayId \<Rightarrow> Size \<Rightarrow> PixelFormat \<Rightarrow> DisplayId option
     \<Rightarrow> Error \<times> HWDisplayId \<Rightarrow> bool \<times> HWComposer" where
  "allocateVirtualDisplay ext s displayId resolution format mirror reply =
     (if \<not> isValid ext resolution then (False, s)
      else if mMaxVirtualDisplayDimension s > 0
              \<and> ((ucast (width resolution) :: 64 word) > mMaxVirtualDisplayDimension s
                 \<or> (ucast (height resolution) :: 64 word) > mMaxVirtualDisplayDimension s)
      then (False, s)
      else
        let hwcMirrorId = (case mirror of
                             None \<Rightarrow> None
                           | Some physicalId \<Rightarrow> fromPhysicalDisplayId s physicalId);
            s1 = issue (CreateVirtualDisplay (width resolution) (height resolution) format
                          hwcMirrorId) s
        in
          if fst reply \<noteq> NONE then (False, s1)
          else
            let display = \<lparr>mId = snd reply, mType = VIRTUAL, mIsConnected = True\<rparr>;
                displayData = (case mDisplayData s1 displayId of
                                 None \<Rightarrow> newDisplayData display
                               | Some existing \<Rightarrow> existing\<lparr>hwcDisplay := display\<rparr>)
            in (True, setDisplayData s1 displayId (displayData\<lparr>isVirtual := True\<rparr>)))"

definition allocatePhysicalDisplay :: "HWComposer \<Rightarrow> HWDisplayId \<Rightarrow> DisplayId \<Rightarrow> HWComposer" where
  "allocatePhysicalDisplay s hwcDisplayId displayId =
     (let s1 = s\<lparr>mPhysicalDisplayIdMap :=
                   AList.update hwcDisplayId displayId (mPhysicalDisplayIdMap s)\<rparr>;
          s2 = (if mInternalHwcDisplayId s1 = None
                then s1\<lparr>mInternalHwcDisplayId := Some hwcDisplayId\<rparr>
                else if mInternalHwcDisplayId s1 \<noteq> Some hwcDisplayId
                        \<and> mExternalHwcDisplayId s1 = None
                then s1\<lparr>mExternalHwcDisplayId := Some hwcDisplayId\<rparr>
                else s1);
          newDisplay = \<lparr>mId = hwcDisplayId, mType = PHYSICAL, mIsConnected = True\<rparr>;
          displayData = (case mDisplayData s2 displayId of
                           None \<Rightarrow> newDisplayData newDisplay
                         | Some existing \<Rightarrow> existing\<lparr>hwcDisplay := newDisplay\<rparr>)
      in setDisplayData s2 displayId displayData)"

definition disconnectDisplay :: "HWComposer \<Rightarrow> DisplayId \<Rightarrow> HWComposer" where
  "disconnectDisplay s displayId =
     (case mDisplayData s displayId of
        None \<Rightarrow> s
      | Some displayData \<Rightarrow>
          let hwcDisplayId = mId (hwcDisplay displayData);
              s1 = (if mInternalHwcDisplayId s = Some hwcDisplayId
                    then s\<lparr>mInternalHwcDisplayId := None\<rparr>
                    else if mExternalHwcDisplayId s = Some hwcDisplayId
                    then s\<lparr>mExternalHwcDisplayId := None\<rparr>
                    else s)
          in s1\<lparr>mPhysicalDisplayIdMap := AList.delete hwcDisplayId (mPhysicalDisplayIdMap s1),
                mDisplayData := (mDisplayData s1)(displayId := None)\<rparr>)"

section \<open>Hotplug resolver\<close>

text \<open>
  \<open>reply\<close> is what \<^verbatim>\<open>mComposer->getDisplayIdentificationData\<close> hands back: its error, and
  the port and the data as they stand after the call.
\<close>

type_synonym IdentificationReply = "Error \<times> 8 word \<times> DisplayIdentificationData"

definition getDisplayIdentificationData ::
  "HWComposer \<Rightarrow> HWDisplayId \<Rightarrow> IdentificationReply \<Rightarrow> bool \<times> HWComposer" where
  "getDisplayIdentificationData s hwcDisplayId reply =
     (let s1 = issue (GetDisplayIdentificationData hwcDisplayId) s
      in if fst reply \<noteq> NONE then (False, s1) else (True, s1))"

definition shouldIgnoreHotplugConnect :: "HWComposer \<Rightarrow> HWDisplayId \<Rightarrow> bool \<Rightarrow> bool" where
  "shouldIgnoreHotplugConnect s hwcDisplayId hasDisplayIdentificationData =
     (if mHasMultiDisplaySupport s \<and> \<not> hasDisplayIdentificationData then True
      else if \<not> mHasMultiDisplaySupport s \<and> mInternalHwcDisplayId s \<noteq> None
              \<and> mExternalHwcDisplayId s \<noteq> None
      then True
      else False)"

text \<open>
  The lambda of \<open>onHotplugConnect\<close> that derives the identity of a new connection.
\<close>

definition deriveIdentificationInfo ::
  "Externals \<Rightarrow> HWComposer \<Rightarrow> 8 word \<Rightarrow> DisplayIdentificationData \<Rightarrow> DisplayIdentificationInfo"
  where
  "deriveIdentificationInfo ext s port data =
     (let isPrimary = (mInternalHwcDisplayId s = None);
          fallback = (\<lambda>p. \<lparr>id' = fromPort ext p,
                           name = (if isPrimary then ''Internal display'' else ''External display''),
                           deviceProductInfo = None\<rparr>)
      in
        if mHasMultiDisplaySupport s then
          (case parseDisplayIdentificationData ext port data of
             Some info \<Rightarrow> info
           | None \<Rightarrow> fallback port)
        else
          fallback (if isPrimary then LEGACY_DISPLAY_TYPE_PRIMARY ext
                    else LEGACY_DISPLAY_TYPE_EXTERNAL ext))"

definition onHotplugConnect ::
  "Externals \<Rightarrow> HWComposer \<Rightarrow> HWDisplayId \<Rightarrow> IdentificationReply
     \<Rightarrow> DisplayIdentificationInfo option \<times> HWComposer" where
  "onHotplugConnect ext s hwcDisplayId reply =
     (let finish = (\<lambda>s' info.
            (Some info,
             if \<not> isConnected s' (id' info) then allocatePhysicalDisplay s' hwcDisplayId (id' info)
             else s'))
      in
        case toPhysicalDisplayId s hwcDisplayId of
          Some displayId \<Rightarrow>
            let info = \<lparr>id' = displayId, name = [], deviceProductInfo = None\<rparr> in
            if mUpdateDeviceProductInfoOnHotplugReconnect s then
              let s1 = snd (getDisplayIdentificationData s hwcDisplayId reply) in
              (case parseDisplayIdentificationData ext (fst (snd reply)) (snd (snd reply)) of
                 Some newInfo \<Rightarrow>
                   finish s1 (info\<lparr>deviceProductInfo := deviceProductInfo newInfo\<rparr>)
               | None \<Rightarrow> finish s1 info)
            else finish s info
        | None \<Rightarrow>
            let identified = getDisplayIdentificationData s hwcDisplayId reply;
                hasDisplayIdentificationData = fst identified;
                s1 = snd identified;
                s2 = (if mPhysicalDisplayIdMap s1 = []
                      then s1\<lparr>mHasMultiDisplaySupport := hasDisplayIdentificationData\<rparr>
                      else s1)
            in
              if shouldIgnoreHotplugConnect s2 hwcDisplayId hasDisplayIdentificationData
              then (None, s2)
              else finish s2 (deriveIdentificationInfo ext s2 (fst (snd reply)) (snd (snd reply))))"

definition onHotplugDisconnect ::
  "HWComposer \<Rightarrow> HWDisplayId \<Rightarrow> DisplayIdentificationInfo option \<times> HWComposer" where
  "onHotplugDisconnect s hwcDisplayId =
     (case toPhysicalDisplayId s hwcDisplayId of
        None \<Rightarrow> (None, s)
      | Some displayId \<Rightarrow>
          (Some \<lparr>id' = displayId, name = [], deviceProductInfo = None\<rparr>,
           if isConnected s displayId then
             (case mDisplayData s displayId of
                None \<Rightarrow> s
              | Some displayData \<Rightarrow>
                  setDisplayData s displayId
                    (displayData\<lparr>hwcDisplay := (hwcDisplay displayData)\<lparr>mIsConnected := False\<rparr>\<rparr>))
           else s))"

datatype Connection = INVALID | CONNECTED | DISCONNECTED

definition onHotplug ::
  "Externals \<Rightarrow> HWComposer \<Rightarrow> HWDisplayId \<Rightarrow> Connection \<Rightarrow> IdentificationReply
     \<Rightarrow> DisplayIdentificationInfo option \<times> HWComposer" where
  "onHotplug ext s hwcDisplayId connection reply =
     (case connection of
        CONNECTED \<Rightarrow> onHotplugConnect ext s hwcDisplayId reply
      | DISCONNECTED \<Rightarrow> (onHotplugDisconnect s hwcDisplayId)
      | INVALID \<Rightarrow> (None, s))"

section \<open>Vocabulary of the theorems\<close>

fun isAcceptChanges :: "HwcCall \<Rightarrow> bool" where
  "isAcceptChanges (AcceptChanges _) = True"
| "isAcceptChanges _ = False"

text \<open>
  The value of the local variable \<^verbatim>\<open>error\<close> when \<open>getDeviceCompositionChanges\<close> reaches
  its second half: the error of \<^verbatim>\<open>presentOrValidate\<close>, overwritten by the error of
  \<^verbatim>\<open>getReleaseFences\<close> when the state code was 1 or 2.
\<close>

definition validateError :: "CompositionReplies \<Rightarrow> Error" where
  "validateError dev =
     (if pov_state (presentOrValidate_reply dev) = 1 \<or> pov_state (presentOrValidate_reply dev) = 2
      then fst (getReleaseFences_reply dev)
      else pov_error (presentOrValidate_reply dev))"

text \<open>
  No early return in the second half before the result is stored: the error check
  labelled "validate" passes and the two queries that are checked succeed.
\<close>

definition queriesSucceed :: "CompositionReplies \<Rightarrow> bool" where
  "queriesSucceed dev =
     ((validateError dev = NONE \<or> hasChangesError (validateError dev))
      \<and> fst (getChangedCompositionTypes_reply dev) = NONE
      \<and> fst (getRequests_reply dev) = NONE)"

definition queriedChanges :: "CompositionReplies \<Rightarrow> DeviceRequestedChanges" where
  "queriedChanges dev =
     \<lparr>changedTypes = snd (getChangedCompositionTypes_reply dev),
      displayRequests = fst (snd (getRequests_reply dev)),
      layerRequests = snd (snd (getRequests_reply dev)),
      clientTargetProperty = snd (getClientTargetProperty_reply dev)\<rparr>"

text \<open>
  A positive bound is configured and the width or the height, read as the unsigned
  number that the cast to \<^verbatim>\<open>uint32_t\<close> yields, is larger.
\<close>

definition exceedsMaxDimension :: "HWComposer \<Rightarrow> Size \<Rightarrow> bool" where
  "exceedsMaxDimension s resolution =
     (0 < mMaxVirtualDisplayDimension s
      \<and> (uint (mMaxVirtualDisplayDimension s) < uint (width resolution)
         \<or> uint (mMaxVirtualDisplayDimension s) < uint (height resolution)))"

section \<open>Example states and replies\<close>

definition exampleDisplay :: Display where
  "exampleDisplay = \<lparr>mId = 7, mType = PHYSICAL, mIsConnected = True\<rparr>"

definition exampleData :: DisplayData where
  "exampleData =
     (newDisplayData exampleDisplay)
       \<lparr>releaseFences := [10 \<mapsto> FenceFd 3], lastHwVsync := 5\<rparr>"

text \<open>One connected physical display with handle 7 and identity 0.\<close>

definition exampleComposer :: HWComposer where
  "exampleComposer =
     \<lparr>mDisplayData = [0 \<mapsto> exampleData],
      mPhysicalDisplayIdMap = [(7, 0)],
      mInternalHwcDisplayId = Some 7,
      mExternalHwcDisplayId = None,
      mHasMultiDisplaySupport = False,
      mMaxVirtualDisplayDimension = 0,
      mUpdateDeviceProductInfoOnHotplugReconnect = False,
      calls = []\<rparr>"

text \<open>The same composer after a frame whose validation was skipped.\<close>

definition skippedComposer :: HWComposer where
  "skippedComposer =
     exampleComposer\<lparr>mDisplayData := [0 \<mapsto> exampleData\<lparr>validateWasSkipped := True\<rparr>]\<rparr>"

text \<open>The same composer with the display marked disconnected.\<close>

definition unpluggedData :: DisplayData where
  "unpluggedData = exampleData\<lparr>hwcDisplay := exampleDisplay\<lparr>mIsConnected := False\<rparr>\<rparr>"

definition unpluggedComposer :: HWComposer where
  "unpluggedComposer = exampleComposer\<lparr>mDisplayData := [0 \<mapsto> unpluggedData]\<rparr>"

text \<open>The same composer with a maximum virtual display dimension of 1024.\<close>

definition boundedComposer :: HWComposer where
  "boundedComposer = exampleComposer\<lparr>mMaxVirtualDisplayDimension := 1024\<rparr>"

text \<open>A device whose fast path validates only (state 0) and whose queries succeed.\<close>

definition validateOnlyReplies :: CompositionReplies where
  "validateOnlyReplies =
     \<lparr>presentOrValidate_reply =
        \<lparr>pov_error = NONE, pov_numTypes = 1, pov_numRequests = 0,
         pov_outPresentFence = FenceFd 8, pov_state = 0\<rparr>,
      validate_reply = (NONE, 1, 0),
      getReleaseFences_reply = (NONE, [10 \<mapsto> FenceFd 4]),
      getChangedCompositionTypes_reply = (NONE, [(10, 1)]),
      getRequests_reply = (NONE, 0, []),
      getClientTargetProperty_reply = (NONE, \<lparr>pixelFormat = 1, dataspace = 0\<rparr>),
      acceptChanges_reply = NONE\<rparr>"

text \<open>The same device reporting committed-no-changes (state 1).\<close>

definition committedReplies :: CompositionReplies where
  "committedReplies =
     validateOnlyReplies\<lparr>presentOrValidate_reply :=
       (presentOrValidate_reply validateOnlyReplies)\<lparr>pov_state := 1\<rparr>\<rparr>"

text \<open>The same device reporting committed-with-changes (state 2).\<close>

definition committedWithChangesReplies :: CompositionReplies where
  "committedWithChangesReplies =
     validateOnlyReplies\<lparr>presentOrValidate_reply :=
       (presentOrValidate_reply validateOnlyReplies)\<lparr>pov_state := 2\<rparr>\<rparr>"

text \<open>A device that validates only and then fails the query for the changed types.\<close>

definition failingQueryReplies :: CompositionReplies where
  "failingQueryReplies =
     validateOnlyReplies\<lparr>getChangedCompositionTypes_reply := (BAD_DISPLAY, [])\<rparr>"

definition presentReplies :: PresentReplies where
  "presentReplies =
     \<lparr>executeCommands_reply = NONE,
      present_reply = (NONE, Some (FenceFd 9)),
      releaseFences_reply = (NONE, [20 \<mapsto> FenceFd 5])\<rparr>"

text \<open>A device whose present succeeds and whose release fences cannot be fetched.\<close>

definition failingFencesReplies :: PresentReplies where
  "failingFencesReplies = presentReplies\<lparr>releaseFences_reply := (BAD_DISPLAY, [20 \<mapsto> FenceFd 5])\<rparr>"

definition exampleExternals :: Externals where
  "exampleExternals =
     \<lparr>isValid = (\<lambda>size. 0 < sint (width size) \<and> 0 < sint (height size)),
      fromPort = ucast,
      parseDisplayIdentificationData =
        (\<lambda>port data. if data = [] then None
                      else Some \<lparr>id' = 256 + ucast port, name = ''panel'',
                                 deviceProductInfo = Some ''panel''\<rparr>),
      LEGACY_DISPLAY_TYPE_PRIMARY = 0,
      LEGACY_DISPLAY_TYPE_EXTERNAL = 1\<rparr>"

text \<open>A composer that has seen no display yet.\<close>

definition initialComposer :: HWComposer where
  "initialComposer =
     \<lparr>mDisplayData = Map.empty,
      mPhysicalDisplayIdMap = [],
      mInternalHwcDisplayId = None,
      mExternalHwcDisplayId = None,
      mHasMultiDisplaySupport = False,
      mMaxVirtualDisplayDimension = 0,
      mUpdateDeviceProductInfoOnHotplugReconnect = False,
      calls = []\<rparr>"

definition noIdentification :: IdentificationReply where
  "noIdentification = (UNSUPPORTED, 0, [])"

definition someIdentification :: IdentificationReply where
  "someIdentification = (NONE, 3, [1, 2, 3])"

text \<open>
  The first connection ever (handle 1) comes without identification data; then handle 2
  connects, also without.
\<close>

definition oneLegacyDisplay :: HWComposer where
  "oneLegacyDisplay = snd (onHotplugConnect exampleExternals initialComposer 1 noIdentification)"

definition twoLegacyDisplays :: HWComposer where
  "twoLegacyDisplays = snd (onHotplugConnect exampleExternals oneLegacyDisplay 2 noIdentification)"

text \<open>The only display of \<open>oneLegacyDisplay\<close> is unplugged and then destroyed.\<close>

definition destroyedAgain :: HWComposer where
  "destroyedAgain = disconnectDisplay (snd (onHotplugDisconnect oneLegacyDisplay 1)) 0"

section \<open>Helper lemmas\<close>

lemma slowValidate_issued:
  "issued s0 s = cs \<Longrightarrow> length (calls s0) \<le> length (calls s) \<Longrightarrow>
   issued s0 (snd (snd (slowValidate s h dev e a out))) =
     cs @ (if \<not> hasChangesError e \<and> e \<noteq> NONE then []
      else GetChangedCompositionTypes h #
        (if fst (getChangedCompositionTypes_reply dev) \<noteq> NONE then []
         else GetRequests h #
           (if fst (getRequests_reply dev) \<noteq> NONE then []
            else GetClientTargetProperty h # (if a then [AcceptChanges h] else []))))"
  by (simp add: slowValidate_def Let_def issue_def issued_def)

lemma slowValidate_out:
  "fst (snd (slowValidate s h dev e a out)) =
     (if (e = NONE \<or> hasChangesError e) \<and> fst (getChangedCompositionTypes_reply dev) = NONE
         \<and> fst (getRequests_reply dev) = NONE
      then Some (queriedChanges dev) else out)"
  by (simp add: slowValidate_def Let_def queriedChanges_def)

lemma slowValidate_status:
  "\<not> ((e = NONE \<or> hasChangesError e) \<and> fst (getChangedCompositionTypes_reply dev) = NONE
         \<and> fst (getRequests_reply dev) = NONE)
   \<Longrightarrow> fst (slowValidate s h dev e a out) = BAD_INDEX"
  by (auto simp add: slowValidate_def Let_def)

lemma getDeviceCompositionChanges_slow:
  assumes "mDisplayData s displayId = Some displayData"
    and "mIsConnected (hwcDisplay displayData)"
    and "pov_error (presentOrValidate_reply dev) = NONE
          \<or> hasChangesError (pov_error (presentOrValidate_reply dev))"
    and "pov_state (presentOrValidate_reply dev) \<noteq> 1"
  shows "\<exists>s1. getDeviceCompositionChanges s displayId dev outChanges =
            slowValidate s1 (mId (hwcDisplay displayData)) dev (validateError dev)
              (pov_state (presentOrValidate_reply dev) \<noteq> 2) outChanges
          \<and> issued s s1 = PresentOrValidate (mId (hwcDisplay displayData)) #
              (if pov_state (presentOrValidate_reply dev) = 2
               then [GetReleaseFences (mId (hwcDisplay displayData))] else [])
          \<and> length (calls s) \<le> length (calls s1)"
  using assms
  by (auto simp: getDeviceCompositionChanges_def Let_def canSkipValidate_def validateError_def
      issued_def issue_def setDisplayData_def)

lemma accepts_at_most_once:
  "length (filter isAcceptChanges
     (issued s (snd (snd (getDeviceCompositionChanges s displayId dev outChanges))))) \<le> 1"
proof (cases "mDisplayData s displayId")
  case None
  then show ?thesis by (simp add: getDeviceCompositionChanges_def issued_def)
next
  case (Some displayData)
  show ?thesis
  proof (cases "mIsConnected (hwcDisplay displayData)
      \<and> (pov_error (presentOrValidate_reply dev) = NONE
          \<or> hasChangesError (pov_error (presentOrValidate_reply dev)))
      \<and> pov_state (presentOrValidate_reply dev) \<noteq> 1")
    case True
    with Some getDeviceCompositionChanges_slow [of s displayId displayData dev outChanges]
    obtain s1 where s1: "getDeviceCompositionChanges s displayId dev outChanges =
            slowValidate s1 (mId (hwcDisplay displayData)) dev (validateError dev)
              (pov_state (presentOrValidate_reply dev) \<noteq> 2) outChanges"
      "issued s s1 = PresentOrValidate (mId (hwcDisplay displayData)) #
              (if pov_state (presentOrValidate_reply dev) = 2
               then [GetReleaseFences (mId (hwcDisplay displayData))] else [])"
      "length (calls s) \<le> length (calls s1)"
      by blast
    show ?thesis
      unfolding s1(1) slowValidate_issued [OF s1(2) s1(3)] by simp
  next
    case False
    then show ?thesis
      using Some
      by (auto simp: getDeviceCompositionChanges_def Let_def canSkipValidate_def
          issued_def issue_def setDisplayData_def)
  qed
qed

lemma onVsync_physical:
  assumes "toPhysicalDisplayId s h = Some displayId"
    and "mDisplayData s displayId = Some displayData"
    and "\<not> isVirtual displayData"
  shows "onVsync s h timestamp =
     (if timestamp = lastHwVsync displayData then Some (False, s)
      else Some (True, setDisplayData s displayId
                  (displayData\<lparr>lastHwVsync := timestamp,
                               vsyncTraceToggle := \<not> vsyncTraceToggle displayData\<rparr>)))"
  using assms by (simp add: onVsync_def Let_def)

lemma forwardedVsyncs_physical:
  assumes "toPhysicalDisplayId s h = Some displayId"
    and "mDisplayData s displayId = Some displayData"
    and "\<not> isVirtual displayData"
  shows "\<exists>forwarded s'. forwardedVsyncs s h timestamps = Some (forwarded, s')
           \<and> lastHwVsync displayData # forwarded
               = remdups_adj (lastHwVsync displayData # timestamps)"
  using assms
proof (induction timestamps arbitrary: s displayData)
  case Nil
  then show ?case by simp
next
  case (Cons t ts)
  show ?case
  proof (cases "t = lastHwVsync displayData")
    case True
    with Cons.prems have "onVsync s h t = Some (False, s)"
      by (simp add: onVsync_physical)
    moreover from Cons.IH [OF Cons.prems]
    obtain fw s' where "forwardedVsyncs s h ts = Some (fw, s')"
      "lastHwVsync displayData # fw = remdups_adj (lastHwVsync displayData # ts)"
      by blast
    ultimately show ?thesis using True by simp
  next
    case False
    define dd where "dd = displayData\<lparr>lastHwVsync := t,
                               vsyncTraceToggle := \<not> vsyncTraceToggle displayData\<rparr>"
    define s1 where "s1 = setDisplayData s displayId dd"
    from False Cons.prems have step: "onVsync s h t = Some (True, s1)"
      by (simp add: onVsync_physical s1_def dd_def)
    have "toPhysicalDisplayId s1 h = Some displayId"
      using Cons.prems by (simp add: s1_def setDisplayData_def toPhysicalDisplayId_def)
    moreover have "mDisplayData s1 displayId = Some dd"
      by (simp add: s1_def setDisplayData_def)
    moreover have "\<not> isVirtual dd"
      using Cons.prems by (simp add: dd_def)
    ultimately obtain fw s' where "forwardedVsyncs s1 h ts = Some (fw, s')"
      "lastHwVsync dd # fw = remdups_adj (lastHwVsync dd # ts)"
      using Cons.IH by blast
    then show ?thesis using False step by (simp add: dd_def)
  qed
qed

lemma exceeds_unsigned:
  fixes w :: "32 word" and m :: "64 word"
  shows "((ucast w :: 64 word) > m) = (uint m < uint w)"
  by (simp add: word_less_def uint_up_ucast is_up)

lemma exceeds_signed:
  fixes w :: "32 word" and m :: "64 word"
  assumes "uint m < sint w"
  shows "uint m < uint w"
proof -
  have "- (2 ^ 31) \<le> uint w"
    by (rule order_trans [of _ 0]) simp_all
  then have "sint w \<le> uint w"
    by (simp add: sint_uint signed_take_bit_int_less_eq_self_iff)
  with assms show ?thesis by simp
qed

lemma allocateVirtualDisplay_rejected:
  "\<not> isValid ext resolution \<or> exceedsMaxDimension s resolution
   \<Longrightarrow> allocateVirtualDisplay ext s displayId resolution format mirror reply = (False, s)"
  by (auto simp: allocateVirtualDisplay_def Let_def exceedsMaxDimension_def exceeds_unsigned)

lemma allocateVirtualDisplay_refused:
  "isValid ext resolution \<Longrightarrow> \<not> exceedsMaxDimension s resolution \<Longrightarrow> fst reply \<noteq> NONE
   \<Longrightarrow> \<not> fst (allocateVirtualDisplay ext s displayId resolution format mirror reply)
     \<and> mDisplayData (snd (allocateVirtualDisplay ext s displayId resolution format mirror reply))
         = mDisplayData s"
  by (auto simp: allocateVirtualDisplay_def Let_def exceedsMaxDimension_def exceeds_unsigned
      issue_def)

lemma allocateVirtualDisplay_created:
  "isValid ext resolution \<Longrightarrow> \<not> exceedsMaxDimension s resolution \<Longrightarrow> fst reply = NONE
   \<Longrightarrow> fst (allocateVirtualDisplay ext s displayId resolution format mirror reply)
     \<and> (\<exists>displayData.
          mDisplayData (snd (allocateVirtualDisplay ext s displayId resolution format mirror reply))
            displayId = Some displayData
          \<and> isVirtual displayData \<and> mIsConnected (hwcDisplay displayData)
          \<and> mType (hwcDisplay displayData) = VIRTUAL \<and> mId (hwcDisplay displayData) = snd reply)"
  by (auto simp: allocateVirtualDisplay_def Let_def exceedsMaxDimension_def exceeds_unsigned
      setDisplayData_def issue_def newDisplayData_def split: option.splits)

lemma allocatePhysicalDisplay_mode:
  "mHasMultiDisplaySupport (allocatePhysicalDisplay s h d) = mHasMultiDisplaySupport s"
  by (simp add: allocatePhysicalDisplay_def Let_def setDisplayData_def)

lemma onHotplugConnect_reconnect_mode:
  "toPhysicalDisplayId s h = Some displayId
   \<Longrightarrow> mHasMultiDisplaySupport (snd (onHotplugConnect ext s h reply)) = mHasMultiDisplaySupport s"
  by (simp add: onHotplugConnect_def Let_def getDisplayIdentificationData_def issue_def
      allocatePhysicalDisplay_mode split: option.splits)

lemma onHotplugConnect_new_mode:
  "toPhysicalDisplayId s h = None
   \<Longrightarrow> mHasMultiDisplaySupport (snd (onHotplugConnect ext s h reply)) =
        (if mPhysicalDisplayIdMap s = [] then fst reply = NONE else mHasMultiDisplaySupport s)"
  by (simp add: onHotplugConnect_def Let_def getDisplayIdentificationData_def issue_def
      allocatePhysicalDisplay_mode)

lemma onHotplugConnect_tertiary:
  assumes "toPhysicalDisplayId s h = None"
    and "\<not> (if mPhysicalDisplayIdMap s = [] then fst reply = NONE else mHasMultiDisplaySupport s)"
    and "mInternalHwcDisplayId s \<noteq> None" and "mExternalHwcDisplayId s \<noteq> None"
  shows "onHotplugConnect ext s h reply =
           (None, s\<lparr>mHasMultiDisplaySupport := False,
                    calls := calls s @ [GetDisplayIdentificationData h]\<rparr>)"
  using assms
  by (auto simp: onHotplugConnect_def Let_def getDisplayIdentificationData_def issue_def
      shouldIgnoreHotplugConnect_def split: if_splits)

text \<open>The example states, computed.\<close>

lemma exampleData_fields:
  "hwcDisplay exampleData = exampleDisplay"
  "mId exampleDisplay = 7"
  "mIsConnected exampleDisplay"
  "\<not> isVirtual exampleData"
  "\<not> validateWasSkipped exampleData"
  "lastHwVsync exampleData = 5"
  "releaseFences exampleData = [10 \<mapsto> FenceFd 3]"
  by (simp_all add: exampleData_def exampleDisplay_def newDisplayData_def)

lemma exampleComposer_fields:
  "mDisplayData exampleComposer 0 = Some exampleData"
  "toPhysicalDisplayId exampleComposer 7 = Some 0"
  "calls exampleComposer = []"
  by (simp_all add: exampleComposer_def toPhysicalDisplayId_def)

lemma oneLegacyDisplay_eq:
  "oneLegacyDisplay =
     \<lparr>mDisplayData = [0 \<mapsto> newDisplayData \<lparr>mId = 1, mType = PHYSICAL, mIsConnected = True\<rparr>],
      mPhysicalDisplayIdMap = [(1, 0)],
      mInternalHwcDisplayId = Some 1,
      mExternalHwcDisplayId = None,
      mHasMultiDisplaySupport = False,
      mMaxVirtualDisplayDimension = 0,
      mUpdateDeviceProductInfoOnHotplugReconnect = False,
      calls = [GetDisplayIdentificationData 1]\<rparr>"
  by (simp add: oneLegacyDisplay_def onHotplugConnect_def initialComposer_def noIdentification_def
      exampleExternals_def toPhysicalDisplayId_def getDisplayIdentificationData_def issue_def
      shouldIgnoreHotplugConnect_def deriveIdentificationInfo_def isConnected_def
      allocatePhysicalDisplay_def setDisplayData_def Let_def)

lemma twoLegacyDisplays_eq:
  "twoLegacyDisplays =
     \<lparr>mDisplayData = [0 \<mapsto> newDisplayData \<lparr>mId = 1, mType = PHYSICAL, mIsConnected = True\<rparr>,
                      1 \<mapsto> newDisplayData \<lparr>mId = 2, mType = PHYSICAL, mIsConnected = True\<rparr>],
      mPhysicalDisplayIdMap = [(1, 0), (2, 1)],
      mInternalHwcDisplayId = Some 1,
      mExternalHwcDisplayId = Some 2,
      mHasMultiDisplaySupport = False,
      mMaxVirtualDisplayDimension = 0,
      mUpdateDeviceProductInfoOnHotplugReconnect = False,
      calls = [GetDisplayIdentificationData 1, GetDisplayIdentificationData 2]\<rparr>"
  by (simp add: twoLegacyDisplays_def oneLegacyDisplay_eq onHotplugConnect_def noIdentification_def
      exampleExternals_def toPhysicalDisplayId_def getDisplayIdentificationData_def issue_def
      shouldIgnoreHotplugConnect_def deriveIdentificationInfo_def isConnected_def
      allocatePhysicalDisplay_def setDisplayData_def Let_def)

lemma destroyedAgain_eq:
  "destroyedAgain =
     \<lparr>mDisplayData = Map.empty,
      mPhysicalDisplayIdMap = [],
      mInternalHwcDisplayId = None,
      mExternalHwcDisplayId = None,
      mHasMultiDisplaySupport = False,
      mMaxVirtualDisplayDimension = 0,
      mUpdateDeviceProductInfoOnHotplugReconnect = False,
      calls = [GetDisplayIdentificationData 1]\<rparr>"
  by (simp add: destroyedAgain_def oneLegacyDisplay_eq disconnectDisplay_def newDisplayData_def
      onHotplugDisconnect_def toPhysicalDisplayId_def isConnected_def setDisplayData_def Let_def)

section \<open>Composition negotiation: the fast path committed without changes\<close>

text \<open>
  C1. For every registered display: when the fast path of \<open>getDeviceCompositionChanges\<close>
  reports committed-no-changes (state 1), the function returns \<open>NO_ERROR\<close> and leaves
  \<open>outChanges\<close> as it was, having called only presentOrValidate and getReleaseFences; the
  \<open>presentAndGetReleaseFences\<close> that follows issues exactly one device call, the flush
  (executeCommands), so no present; it returns \<open>UNKNOWN_ERROR\<close> when the flush fails or
  when the error captured during the skipped validate (the one of getReleaseFences) is
  not \<open>NONE\<close>, and \<open>NO_ERROR\<close> otherwise.

  State 1 stands for "validate and commit succeeded", as the comment in the function
  says: the fast path reports it when it is run (the display is connected) and
  presentOrValidate does not fail, that is, its error code is \<open>NONE\<close> or the has-changes
  code, which the function treats as success.
\<close>

theorem C1_committed_no_changes:
  assumes "mDisplayData s displayId = Some displayData"
    and "mIsConnected (hwcDisplay displayData)"
    and "pov_error (presentOrValidate_reply dev) = NONE
         \<or> hasChangesError (pov_error (presentOrValidate_reply dev))"
    and "pov_state (presentOrValidate_reply dev) = 1"
  shows "let r = getDeviceCompositionChanges s displayId dev outChanges;
             s' = snd (snd r);
             p = presentAndGetReleaseFences s' displayId earliestPresentTime previousSignalTime pdev
         in fst r = NO_ERROR
          \<and> fst (snd r) = outChanges
          \<and> issued s s' = [PresentOrValidate (mId (hwcDisplay displayData)),
                           GetReleaseFences (mId (hwcDisplay displayData))]
          \<and> issued s' (snd p) = [ExecuteCommands]
          \<and> fst p = (if executeCommands_reply pdev = NONE \<and> fst (getReleaseFences_reply dev) = NONE
                     then NO_ERROR else UNKNOWN_ERROR)"
  using assms
  by (auto simp: getDeviceCompositionChanges_def presentAndGetReleaseFences_def Let_def
      canSkipValidate_def issued_def issue_def setDisplayData_def)

theorem C1_committed_no_changes_witness:
  "mDisplayData exampleComposer 0 = Some exampleData
   \<and> mIsConnected (hwcDisplay exampleData)
   \<and> pov_error (presentOrValidate_reply committedReplies) = NONE
   \<and> pov_state (presentOrValidate_reply committedReplies) = 1
   \<and> fst (getDeviceCompositionChanges exampleComposer 0 committedReplies None) = NO_ERROR
   \<and> fst (snd (getDeviceCompositionChanges exampleComposer 0 committedReplies None)) = None
   \<and> issued exampleComposer
        (snd (snd (getDeviceCompositionChanges exampleComposer 0 committedReplies None)))
      = [PresentOrValidate 7, GetReleaseFences 7]
   \<and> issued (snd (snd (getDeviceCompositionChanges exampleComposer 0 committedReplies None)))
        (snd (presentAndGetReleaseFences
               (snd (snd (getDeviceCompositionChanges exampleComposer 0 committedReplies None)))
               0 100 50 presentReplies))
      = [ExecuteCommands]
   \<and> fst (presentAndGetReleaseFences
            (snd (snd (getDeviceCompositionChanges exampleComposer 0 committedReplies None)))
            0 100 50 presentReplies) = NO_ERROR"
proof -
  have reg: "mDisplayData exampleComposer 0 = Some exampleData"
    by (rule exampleComposer_fields)
  have conn: "mIsConnected (hwcDisplay exampleData)"
    by (simp add: exampleData_fields)
  have err: "pov_error (presentOrValidate_reply committedReplies) = NONE"
    by (simp add: committedReplies_def validateOnlyReplies_def)
  have st: "pov_state (presentOrValidate_reply committedReplies) = 1"
    by (simp add: committedReplies_def validateOnlyReplies_def)
  have fences: "fst (getReleaseFences_reply committedReplies) = NONE"
    "executeCommands_reply presentReplies = NONE"
    by (simp_all add: committedReplies_def validateOnlyReplies_def presentReplies_def)
  from err have ok: "pov_error (presentOrValidate_reply committedReplies) = NONE
         \<or> hasChangesError (pov_error (presentOrValidate_reply committedReplies))" ..
  from C1_committed_no_changes [OF reg conn ok st, of None 100 50 presentReplies]
  show ?thesis
    using reg conn err st fences by (simp add: Let_def exampleData_fields)
qed

section \<open>Composition negotiation: disconnected display\<close>

text \<open>
  C10. For every display that is registered but whose record is marked not connected,
  \<open>getDeviceCompositionChanges\<close> returns \<open>NO_ERROR\<close> with \<open>outChanges\<close> as it was and with the
  state it was given: no device call is recorded and neither the fences nor the
  validate-was-skipped flag change.
\<close>

theorem C10_getDeviceCompositionChanges_disconnected:
  assumes "mDisplayData s displayId = Some displayData"
    and "\<not> mIsConnected (hwcDisplay displayData)"
  shows "getDeviceCompositionChanges s displayId dev outChanges = (NO_ERROR, outChanges, s)"
  using assms by (simp add: getDeviceCompositionChanges_def)

theorem C10_getDeviceCompositionChanges_disconnected_witness:
  "mDisplayData unpluggedComposer 0 = Some unpluggedData
   \<and> \<not> mIsConnected (hwcDisplay unpluggedData)
   \<and> getDeviceCompositionChanges unpluggedComposer 0 committedReplies None
       = (NO_ERROR, None, unpluggedComposer)"
proof -
  have reg: "mDisplayData unpluggedComposer 0 = Some unpluggedData"
    by (simp add: unpluggedComposer_def)
  have unplugged: "\<not> mIsConnected (hwcDisplay unpluggedData)"
    by (simp add: unpluggedData_def)
  from C10_getDeviceCompositionChanges_disconnected [OF reg unplugged] reg unplugged
  show ?thesis by blast
qed

section \<open>Composition negotiation: accepting the changes\<close>

text \<open>
  The claim C6 as stated fails: it promises accept-changes for every call that reaches the
  slow path with a state other than 2. Here the device validates only (state 0), the slow
  path is entered and asks for the changed composition types, that query fails, and the
  function returns \<open>BAD_INDEX\<close> without a result and without calling accept-changes.
\<close>

theorem C6_accept_changes_counterexample:
  "mDisplayData exampleComposer 0 = Some exampleData
   \<and> mIsConnected (hwcDisplay exampleData)
   \<and> pov_error (presentOrValidate_reply failingQueryReplies) = NONE
   \<and> pov_state (presentOrValidate_reply failingQueryReplies) = 0
   \<and> issued exampleComposer
        (snd (snd (getDeviceCompositionChanges exampleComposer 0 failingQueryReplies None)))
      = [PresentOrValidate 7, GetChangedCompositionTypes 7]
   \<and> fst (getDeviceCompositionChanges exampleComposer 0 failingQueryReplies None) = BAD_INDEX
   \<and> fst (snd (getDeviceCompositionChanges exampleComposer 0 failingQueryReplies None)) = None"
  by (simp add: getDeviceCompositionChanges_def slowValidate_def exampleComposer_def
      exampleData_def exampleDisplay_def newDisplayData_def failingQueryReplies_def
      validateOnlyReplies_def canSkipValidate_def hasChangesError_def issued_def issue_def
      setDisplayData_def Let_def)

text \<open>
  C6, amended. In every call of \<open>getDeviceCompositionChanges\<close> accept-changes is called at
  most once. In a call that reaches the slow validate/query path (registered and connected
  display, presentOrValidate not failing, state other than 1):
  if the error check at the head of the slow path passes and the queries for the changed
  composition types and for the requests succeed, the DeviceRequestedChanges result is
  produced from the queried values and accept-changes is called exactly when the state is
  not 2 (committed-with-changes), so with state 2 the result is produced and not applied
  again; if the check or one of the two queries fails, the call returns \<open>BAD_INDEX\<close>, produces
  no result and does not call accept-changes.
\<close>

theorem C6_accept_changes:
  "length (filter isAcceptChanges
     (issued s (snd (snd (getDeviceCompositionChanges s displayId dev outChanges))))) \<le> 1
   \<and> (mDisplayData s displayId = Some displayData
      \<and> mIsConnected (hwcDisplay displayData)
      \<and> (pov_error (presentOrValidate_reply dev) = NONE
          \<or> hasChangesError (pov_error (presentOrValidate_reply dev)))
      \<and> pov_state (presentOrValidate_reply dev) \<noteq> 1
      \<longrightarrow>
        (let r = getDeviceCompositionChanges s displayId dev outChanges;
             accepted = (AcceptChanges (mId (hwcDisplay displayData)) \<in> set (issued s (snd (snd r))))
         in (queriesSucceed dev
               \<longrightarrow> fst (snd r) = Some (queriedChanges dev)
                 \<and> (accepted \<longleftrightarrow> pov_state (presentOrValidate_reply dev) \<noteq> 2))
          \<and> (\<not> queriesSucceed dev
               \<longrightarrow> fst (snd r) = outChanges \<and> \<not> accepted \<and> fst r = BAD_INDEX)))"
proof (intro conjI impI)
  show "length (filter isAcceptChanges
     (issued s (snd (snd (getDeviceCompositionChanges s displayId dev outChanges))))) \<le> 1"
    by (rule accepts_at_most_once)
next
  assume a: "mDisplayData s displayId = Some displayData
      \<and> mIsConnected (hwcDisplay displayData)
      \<and> (pov_error (presentOrValidate_reply dev) = NONE
          \<or> hasChangesError (pov_error (presentOrValidate_reply dev)))
      \<and> pov_state (presentOrValidate_reply dev) \<noteq> 1"
  with getDeviceCompositionChanges_slow [of s displayId displayData dev outChanges]
  obtain s1 where s1: "getDeviceCompositionChanges s displayId dev outChanges =
            slowValidate s1 (mId (hwcDisplay displayData)) dev (validateError dev)
              (pov_state (presentOrValidate_reply dev) \<noteq> 2) outChanges"
      "issued s s1 = PresentOrValidate (mId (hwcDisplay displayData)) #
              (if pov_state (presentOrValidate_reply dev) = 2
               then [GetReleaseFences (mId (hwcDisplay displayData))] else [])"
      "length (calls s) \<le> length (calls s1)"
    by blast
  show "let r = getDeviceCompositionChanges s displayId dev outChanges;
             accepted = (AcceptChanges (mId (hwcDisplay displayData)) \<in> set (issued s (snd (snd r))))
         in (queriesSucceed dev
               \<longrightarrow> fst (snd r) = Some (queriedChanges dev)
                 \<and> (accepted \<longleftrightarrow> pov_state (presentOrValidate_reply dev) \<noteq> 2))
          \<and> (\<not> queriesSucceed dev
               \<longrightarrow> fst (snd r) = outChanges \<and> \<not> accepted \<and> fst r = BAD_INDEX)"
    unfolding s1(1) Let_def slowValidate_issued [OF s1(2) s1(3)]
    by (simp add: slowValidate_out slowValidate_status queriesSucceed_def)
qed

theorem C6_accept_changes_witness:
  "mDisplayData exampleComposer 0 = Some exampleData
   \<and> mIsConnected (hwcDisplay exampleData)
   \<and> pov_error (presentOrValidate_reply validateOnlyReplies) = NONE
   \<and> pov_state (presentOrValidate_reply validateOnlyReplies) = 0
   \<and> queriesSucceed validateOnlyReplies
   \<and> fst (snd (getDeviceCompositionChanges exampleComposer 0 validateOnlyReplies None))
       = Some (queriedChanges validateOnlyReplies)
   \<and> AcceptChanges 7 \<in> set (issued exampleComposer
        (snd (snd (getDeviceCompositionChanges exampleComposer 0 validateOnlyReplies None))))
   \<and> length (filter isAcceptChanges (issued exampleComposer
        (snd (snd (getDeviceCompositionChanges exampleComposer 0 validateOnlyReplies None)))))
       \<le> 1
   \<and> pov_error (presentOrValidate_reply committedWithChangesReplies) = NONE
   \<and> pov_state (presentOrValidate_reply committedWithChangesReplies) = 2
   \<and> queriesSucceed committedWithChangesReplies
   \<and> fst (snd (getDeviceCompositionChanges exampleComposer 0 committedWithChangesReplies None))
       = Some (queriedChanges committedWithChangesReplies)
   \<and> AcceptChanges 7 \<notin> set (issued exampleComposer
        (snd (snd (getDeviceCompositionChanges exampleComposer 0 committedWithChangesReplies
                     None))))"
proof -
  have reg: "mDisplayData exampleComposer 0 = Some exampleData"
    by (rule exampleComposer_fields)
  have conn: "mIsConnected (hwcDisplay exampleData)"
    by (simp add: exampleData_fields)
  have v: "pov_error (presentOrValidate_reply validateOnlyReplies) = NONE"
    "pov_state (presentOrValidate_reply validateOnlyReplies) = 0"
    "queriesSucceed validateOnlyReplies"
    by (simp_all add: validateOnlyReplies_def queriesSucceed_def validateError_def)
  have c: "pov_error (presentOrValidate_reply committedWithChangesReplies) = NONE"
    "pov_state (presentOrValidate_reply committedWithChangesReplies) = 2"
    "queriesSucceed committedWithChangesReplies"
    by (simp_all add: committedWithChangesReplies_def validateOnlyReplies_def queriesSucceed_def
        validateError_def)
  from C6_accept_changes [where s = exampleComposer and displayId = 0
      and displayData = exampleData and dev = validateOnlyReplies and outChanges = None]
    C6_accept_changes [where s = exampleComposer and displayId = 0
      and displayData = exampleData and dev = committedWithChangesReplies and outChanges = None]
  show ?thesis
    using reg conn v c by (simp add: Let_def exampleData_fields)
qed

section \<open>Present\<close>

text \<open>
  The claim C8 as stated fails in its last part: after a successful present the stored
  release-fence map is not always overwritten. Here present succeeds and the device then
  fails to hand out the release fences: the function returns \<open>UNKNOWN_ERROR\<close> and the
  display keeps the map it had (a fence for layer 10, none for layer 20), although the
  failed call carried a fence for layer 20.
\<close>

theorem C8_present_counterexample:
  "mDisplayData exampleComposer 0 = Some exampleData
   \<and> \<not> validateWasSkipped exampleData
   \<and> fst (present_reply failingFencesReplies) = NONE
   \<and> snd (releaseFences_reply failingFencesReplies) 20 = Some (FenceFd 5)
   \<and> fst (presentAndGetReleaseFences exampleComposer 0 100 50 failingFencesReplies)
       = UNKNOWN_ERROR
   \<and> getLayerReleaseFence
       (snd (presentAndGetReleaseFences exampleComposer 0 100 50 failingFencesReplies)) 0 20
       = NO_FENCE
   \<and> getLayerReleaseFence
       (snd (presentAndGetReleaseFences exampleComposer 0 100 50 failingFencesReplies)) 0 10
       = FenceFd 3"
  by (simp add: presentAndGetReleaseFences_def getLayerReleaseFence_def exampleComposer_def
      exampleData_def exampleDisplay_def newDisplayData_def failingFencesReplies_def
      presentReplies_def SIGNAL_TIME_PENDING_def issue_def setDisplayData_def Let_def)

text \<open>
  C8, amended. In \<open>presentAndGetReleaseFences\<close> on a registered display whose validation
  was not skipped this frame: the stored present fence is reset to \<open>NO_FENCE\<close> before present
  is called (afterwards it holds what present stored, and \<open>NO_FENCE\<close> if present stored
  nothing); the thread sleeps until the earliest present time, before present, if and
  only if the signal time of the previous present fence is not the pending value; present
  is then called in either case; after a successful present the release fences are
  requested, and they overwrite the stored map when that request succeeds too, in which
  case the result is \<open>NO_ERROR\<close>; when present or the request fails the result is
  \<open>UNKNOWN_ERROR\<close> and the stored map is the one from before the call.
\<close>

theorem C8_present:
  assumes "mDisplayData s displayId = Some displayData"
    and "\<not> validateWasSkipped displayData"
  shows "let p = presentAndGetReleaseFences s displayId earliestPresentTime previousSignalTime dev;
             hwcId = mId (hwcDisplay displayData);
             presented = (fst (present_reply dev) = NONE);
             retrieved = (fst (releaseFences_reply dev) = NONE)
         in issued s (snd p) =
              (if previousSignalTime \<noteq> SIGNAL_TIME_PENDING then [SleepUntil earliestPresentTime]
               else [])
              @ [Present hwcId]
              @ (if presented then [GetReleaseFences hwcId] else [])
          \<and> (\<exists>after. mDisplayData (snd p) displayId = Some after
               \<and> lastPresentFence after =
                   (case snd (present_reply dev) of None \<Rightarrow> NO_FENCE | Some fence \<Rightarrow> fence)
               \<and> releaseFences after =
                   (if presented \<and> retrieved then snd (releaseFences_reply dev)
                    else releaseFences displayData))
          \<and> fst p = (if presented \<and> retrieved then NO_ERROR else UNKNOWN_ERROR)"
  using assms
  by (auto simp: presentAndGetReleaseFences_def Let_def issued_def issue_def setDisplayData_def
      split: option.splits)

theorem C8_present_witness:
  "mDisplayData exampleComposer 0 = Some exampleData
   \<and> \<not> validateWasSkipped exampleData
   \<and> issued exampleComposer (snd (presentAndGetReleaseFences exampleComposer 0 100 50 presentReplies))
       = [SleepUntil 100, Present 7, GetReleaseFences 7]
   \<and> issued exampleComposer
       (snd (presentAndGetReleaseFences exampleComposer 0 100 SIGNAL_TIME_PENDING presentReplies))
       = [Present 7, GetReleaseFences 7]
   \<and> fst (presentAndGetReleaseFences exampleComposer 0 100 50 presentReplies) = NO_ERROR
   \<and> getPresentFence (snd (presentAndGetReleaseFences exampleComposer 0 100 50 presentReplies)) 0
       = FenceFd 9
   \<and> getLayerReleaseFence
       (snd (presentAndGetReleaseFences exampleComposer 0 100 50 presentReplies)) 0 20
       = FenceFd 5"
proof -
  have reg: "mDisplayData exampleComposer 0 = Some exampleData"
    by (rule exampleComposer_fields)
  have notSkipped: "\<not> validateWasSkipped exampleData"
    by (simp add: exampleData_fields)
  have signalled: "(50 :: nsecs_t) \<noteq> SIGNAL_TIME_PENDING"
    by (simp add: SIGNAL_TIME_PENDING_def)
  have replies: "present_reply presentReplies = (NONE, Some (FenceFd 9))"
    "releaseFences_reply presentReplies = (NONE, [20 \<mapsto> FenceFd 5])"
    by (simp_all add: presentReplies_def)
  from C8_present [OF reg notSkipped, of 100 50 presentReplies]
    C8_present [OF reg notSkipped, of 100 SIGNAL_TIME_PENDING presentReplies]
  show ?thesis
    using reg notSkipped signalled replies
    by (auto simp: Let_def exampleData_fields getPresentFence_def getLayerReleaseFence_def)
qed

section \<open>Client target of a frame whose validation was skipped\<close>

text \<open>
  C9. For every registered display whose validate-was-skipped flag is set,
  \<open>setClientTarget\<close> returns \<open>NO_ERROR\<close> at once: the state it returns is the state it was
  given, so no device call is recorded and no display state is modified, whatever slot,
  buffer, acquire fence and dataspace were passed (and whatever the device would have
  answered).
\<close>

theorem C9_setClientTarget_skipped:
  assumes "mDisplayData s displayId = Some displayData"
    and "validateWasSkipped displayData"
  shows "setClientTarget s displayId slot acquireFence target dspace reply = (NO_ERROR, s)"
  using assms by (simp add: setClientTarget_def)

theorem C9_setClientTarget_skipped_witness:
  "mDisplayData skippedComposer 0 = Some (exampleData\<lparr>validateWasSkipped := True\<rparr>)
   \<and> validateWasSkipped (exampleData\<lparr>validateWasSkipped := True\<rparr>)
   \<and> setClientTarget skippedComposer 0 1 (FenceFd 4) 99 2 BAD_PARAMETER
       = (NO_ERROR, skippedComposer)"
proof -
  have reg: "mDisplayData skippedComposer 0 = Some (exampleData\<lparr>validateWasSkipped := True\<rparr>)"
    by (simp add: skippedComposer_def)
  have skipped: "validateWasSkipped (exampleData\<lparr>validateWasSkipped := True\<rparr>)"
    by simp
  from C9_setClientTarget_skipped [OF reg skipped] reg skipped show ?thesis by blast
qed

section \<open>Release fences of unknown layers\<close>

text \<open>
  C7. For every registered display and every layer handle, \<open>getLayerReleaseFence\<close> returns
  the sentinel \<open>NO_FENCE\<close> when the layer has no entry in the display's release-fence map;
  when the layer has an entry, the stored fence is returned; hence a result other than the
  sentinel is always the fence stored for that layer. The function has no error result
  and leaves the state alone (it does not return a state).
\<close>

theorem C7_getLayerReleaseFence_unknown_layer:
  assumes "mDisplayData s displayId = Some displayData"
  shows "(releaseFences displayData layer = None
            \<longrightarrow> getLayerReleaseFence s displayId layer = NO_FENCE)
       \<and> (\<forall>fence. releaseFences displayData layer = Some fence
            \<longrightarrow> getLayerReleaseFence s displayId layer = fence)
       \<and> (getLayerReleaseFence s displayId layer \<noteq> NO_FENCE
            \<longrightarrow> releaseFences displayData layer = Some (getLayerReleaseFence s displayId layer))"
  using assms by (auto simp: getLayerReleaseFence_def split: option.splits)

theorem C7_getLayerReleaseFence_witness:
  "mDisplayData exampleComposer 0 = Some exampleData
   \<and> releaseFences exampleData 11 = None
   \<and> getLayerReleaseFence exampleComposer 0 11 = NO_FENCE
   \<and> releaseFences exampleData 10 = Some (FenceFd 3)
   \<and> getLayerReleaseFence exampleComposer 0 10 = FenceFd 3"
proof -
  have reg: "mDisplayData exampleComposer 0 = Some exampleData"
    by (rule exampleComposer_fields)
  have absent: "releaseFences exampleData 11 = None"
    by (simp add: exampleData_fields)
  have present: "releaseFences exampleData 10 = Some (FenceFd 3)"
    by (simp add: exampleData_fields)
  from C7_getLayerReleaseFence_unknown_layer [OF reg, of 11] absent
  have a: "getLayerReleaseFence exampleComposer 0 11 = NO_FENCE" by blast
  from C7_getLayerReleaseFence_unknown_layer [OF reg, of 10] present
  have b: "getLayerReleaseFence exampleComposer 0 10 = FenceFd 3" by blast
  from reg absent present a b show ?thesis by blast
qed

section \<open>Destroying a display versus a bare disconnect\<close>

text \<open>
  C2. For every display identity, after \<open>disconnectDisplay\<close> the lookup in the registry
  reports the identity unknown, and the handle of the erased record is no longer mapped.
  After a bare disconnect notification (\<open>onHotplugDisconnect\<close>) for a handle that maps to
  a registered identity, the lookup still succeeds: the record is the one from before
  with the connected flag of its display false, and the handle is still mapped. No
  disconnect notification, for whatever handle, removes a record.
\<close>

theorem C2_destroy_versus_disconnect:
  "mDisplayData (disconnectDisplay s displayId) displayId = None
   \<and> (mDisplayData s displayId = Some displayData
        \<longrightarrow> toPhysicalDisplayId (disconnectDisplay s displayId) (mId (hwcDisplay displayData)) = None)
   \<and> (mDisplayData s displayId = Some displayData \<and> toPhysicalDisplayId s hwcDisplayId = Some displayId
        \<longrightarrow> mDisplayData (snd (onHotplugDisconnect s hwcDisplayId)) displayId
              = Some (displayData\<lparr>hwcDisplay := (hwcDisplay displayData)\<lparr>mIsConnected := False\<rparr>\<rparr>)
          \<and> \<not> isConnected (snd (onHotplugDisconnect s hwcDisplayId)) displayId
          \<and> toPhysicalDisplayId (snd (onHotplugDisconnect s hwcDisplayId)) hwcDisplayId
              = Some displayId)
   \<and> (mDisplayData s displayId \<noteq> None
        \<longrightarrow> mDisplayData (snd (onHotplugDisconnect s hwcDisplayId)) displayId \<noteq> None)"
  by (auto simp: disconnectDisplay_def onHotplugDisconnect_def toPhysicalDisplayId_def
      isConnected_def setDisplayData_def Let_def delete_conv' split: option.splits)

theorem C2_destroy_versus_disconnect_witness:
  "mDisplayData exampleComposer 0 = Some exampleData
   \<and> toPhysicalDisplayId exampleComposer 7 = Some 0
   \<and> mDisplayData (disconnectDisplay exampleComposer 0) 0 = None
   \<and> toPhysicalDisplayId (disconnectDisplay exampleComposer 0) 7 = None
   \<and> mDisplayData (snd (onHotplugDisconnect exampleComposer 7)) 0 = Some unpluggedData
   \<and> \<not> isConnected (snd (onHotplugDisconnect exampleComposer 7)) 0
   \<and> toPhysicalDisplayId (snd (onHotplugDisconnect exampleComposer 7)) 7 = Some 0"
proof -
  have reg: "mDisplayData exampleComposer 0 = Some exampleData"
    by (rule exampleComposer_fields)
  have mapped: "toPhysicalDisplayId exampleComposer 7 = Some 0"
    by (rule exampleComposer_fields)
  from C2_destroy_versus_disconnect [where s = exampleComposer and displayId = 0
      and displayData = exampleData and hwcDisplayId = 7]
  show ?thesis
    using reg mapped by (simp add: exampleData_fields unpluggedData_def)
qed

section \<open>Addressing mode and the legacy ignore policy\<close>

text \<open>
  The claim C3 as stated fails: the mode chosen by the first connection is not permanent.
  The first connection ever (handle 1) comes without identification data and selects legacy
  mode. The display is unplugged and destroyed, which leaves no handle mapped. The next
  connection (handle 2) comes with identification data and switches the composer to
  generalized mode; its identity is the parsed one.
\<close>

theorem C3_addressing_mode_counterexample:
  "mPhysicalDisplayIdMap initialComposer = []
   \<and> fst (onHotplugConnect exampleExternals initialComposer 1 noIdentification)
       = Some \<lparr>id' = 0, name = ''Internal display'', deviceProductInfo = None\<rparr>
   \<and> \<not> mHasMultiDisplaySupport oneLegacyDisplay
   \<and> mPhysicalDisplayIdMap destroyedAgain = []
   \<and> mHasMultiDisplaySupport
       (snd (onHotplugConnect exampleExternals destroyedAgain 2 someIdentification))
   \<and> fst (onHotplugConnect exampleExternals destroyedAgain 2 someIdentification)
       = Some \<lparr>id' = 259, name = ''panel'', deviceProductInfo = Some ''panel''\<rparr>"
proof -
  have a: "mPhysicalDisplayIdMap initialComposer = []"
    by (simp add: initialComposer_def)
  have b: "fst (onHotplugConnect exampleExternals initialComposer 1 noIdentification)
       = Some \<lparr>id' = 0, name = ''Internal display'', deviceProductInfo = None\<rparr>"
    by (simp add: onHotplugConnect_def initialComposer_def noIdentification_def
      exampleExternals_def toPhysicalDisplayId_def getDisplayIdentificationData_def issue_def
      shouldIgnoreHotplugConnect_def deriveIdentificationInfo_def Let_def)
  have c: "\<not> mHasMultiDisplaySupport oneLegacyDisplay"
    by (simp add: oneLegacyDisplay_eq)
  have d: "mPhysicalDisplayIdMap destroyedAgain = []"
    by (simp add: destroyedAgain_eq)
  have e: "mHasMultiDisplaySupport
       (snd (onHotplugConnect exampleExternals destroyedAgain 2 someIdentification))"
    by (simp add: destroyedAgain_eq onHotplugConnect_def someIdentification_def
      exampleExternals_def toPhysicalDisplayId_def getDisplayIdentificationData_def issue_def
      shouldIgnoreHotplugConnect_def allocatePhysicalDisplay_mode Let_def)
  have f: "fst (onHotplugConnect exampleExternals destroyedAgain 2 someIdentification)
       = Some \<lparr>id' = 259, name = ''panel'', deviceProductInfo = Some ''panel''\<rparr>"
    by (simp add: destroyedAgain_eq onHotplugConnect_def someIdentification_def
      exampleExternals_def toPhysicalDisplayId_def getDisplayIdentificationData_def issue_def
      shouldIgnoreHotplugConnect_def deriveIdentificationInfo_def Let_def)
  from a b c d e f show ?thesis by blast
qed

text \<open>
  C3, amended. A hotplug connection for a handle that is not mapped selects the addressing
  mode exactly when no handle at all is mapped at that moment, as is the case for the
  very first connection: generalized if identification data is present, legacy if absent.
  While some handle is mapped such a connection leaves the mode as it is, and so do a
  reconnection of a mapped handle, a disconnect notification and the destruction of a
  display. A connection for an unmapped handle that finds the composer in legacy mode
  (after the selection just described) with both the primary and the secondary handle
  tracked is ignored: it yields no identity and changes neither the records, nor the
  handle map, nor the two tracked handles.
\<close>

theorem C3_addressing_mode:
  "(toPhysicalDisplayId s hwcDisplayId = None \<longrightarrow>
      mHasMultiDisplaySupport (snd (onHotplugConnect ext s hwcDisplayId reply)) =
        (if mPhysicalDisplayIdMap s = [] then fst reply = NONE else mHasMultiDisplaySupport s))
   \<and> (toPhysicalDisplayId s hwcDisplayId \<noteq> None \<longrightarrow>
      mHasMultiDisplaySupport (snd (onHotplugConnect ext s hwcDisplayId reply)) =
        mHasMultiDisplaySupport s)
   \<and> mHasMultiDisplaySupport (snd (onHotplugDisconnect s hwcDisplayId)) = mHasMultiDisplaySupport s
   \<and> mHasMultiDisplaySupport (disconnectDisplay s displayId) = mHasMultiDisplaySupport s
   \<and> (toPhysicalDisplayId s hwcDisplayId = None
      \<and> \<not> mHasMultiDisplaySupport (snd (onHotplugConnect ext s hwcDisplayId reply))
      \<and> mInternalHwcDisplayId s \<noteq> None \<and> mExternalHwcDisplayId s \<noteq> None
      \<longrightarrow> fst (onHotplugConnect ext s hwcDisplayId reply) = None
        \<and> mDisplayData (snd (onHotplugConnect ext s hwcDisplayId reply)) = mDisplayData s
        \<and> mPhysicalDisplayIdMap (snd (onHotplugConnect ext s hwcDisplayId reply))
            = mPhysicalDisplayIdMap s
        \<and> mInternalHwcDisplayId (snd (onHotplugConnect ext s hwcDisplayId reply))
            = mInternalHwcDisplayId s
        \<and> mExternalHwcDisplayId (snd (onHotplugConnect ext s hwcDisplayId reply))
            = mExternalHwcDisplayId s)"
proof (intro conjI impI)
  show "mHasMultiDisplaySupport (snd (onHotplugConnect ext s hwcDisplayId reply)) =
        (if mPhysicalDisplayIdMap s = [] then fst reply = NONE else mHasMultiDisplaySupport s)"
    if "toPhysicalDisplayId s hwcDisplayId = None"
    using that by (rule onHotplugConnect_new_mode)
  show "mHasMultiDisplaySupport (snd (onHotplugConnect ext s hwcDisplayId reply)) =
        mHasMultiDisplaySupport s"
    if "toPhysicalDisplayId s hwcDisplayId \<noteq> None"
    using that onHotplugConnect_reconnect_mode by blast
  show "mHasMultiDisplaySupport (snd (onHotplugDisconnect s hwcDisplayId)) = mHasMultiDisplaySupport s"
    by (simp add: onHotplugDisconnect_def setDisplayData_def split: option.splits)
  show "mHasMultiDisplaySupport (disconnectDisplay s displayId) = mHasMultiDisplaySupport s"
    by (simp add: disconnectDisplay_def Let_def split: option.splits)
next
  assume a: "toPhysicalDisplayId s hwcDisplayId = None
      \<and> \<not> mHasMultiDisplaySupport (snd (onHotplugConnect ext s hwcDisplayId reply))
      \<and> mInternalHwcDisplayId s \<noteq> None \<and> mExternalHwcDisplayId s \<noteq> None"
  then have "\<not> (if mPhysicalDisplayIdMap s = [] then fst reply = NONE else mHasMultiDisplaySupport s)"
    using onHotplugConnect_new_mode [of s hwcDisplayId ext reply] by simp
  with a have r: "onHotplugConnect ext s hwcDisplayId reply =
           (None, s\<lparr>mHasMultiDisplaySupport := False,
                    calls := calls s @ [GetDisplayIdentificationData hwcDisplayId]\<rparr>)"
    by (intro onHotplugConnect_tertiary) simp_all
  show "fst (onHotplugConnect ext s hwcDisplayId reply) = None" by (simp add: r)
  show "mDisplayData (snd (onHotplugConnect ext s hwcDisplayId reply)) = mDisplayData s"
    by (simp add: r)
  show "mPhysicalDisplayIdMap (snd (onHotplugConnect ext s hwcDisplayId reply))
            = mPhysicalDisplayIdMap s" by (simp add: r)
  show "mInternalHwcDisplayId (snd (onHotplugConnect ext s hwcDisplayId reply))
            = mInternalHwcDisplayId s" by (simp add: r)
  show "mExternalHwcDisplayId (snd (onHotplugConnect ext s hwcDisplayId reply))
            = mExternalHwcDisplayId s" by (simp add: r)
qed

theorem C3_addressing_mode_witness:
  "toPhysicalDisplayId initialComposer 1 = None
   \<and> mPhysicalDisplayIdMap initialComposer = []
   \<and> mHasMultiDisplaySupport
       (snd (onHotplugConnect exampleExternals initialComposer 1 someIdentification))
   \<and> \<not> mHasMultiDisplaySupport
       (snd (onHotplugConnect exampleExternals initialComposer 1 noIdentification))
   \<and> toPhysicalDisplayId twoLegacyDisplays 3 = None
   \<and> mInternalHwcDisplayId twoLegacyDisplays = Some 1
   \<and> mExternalHwcDisplayId twoLegacyDisplays = Some 2
   \<and> \<not> mHasMultiDisplaySupport
       (snd (onHotplugConnect exampleExternals twoLegacyDisplays 3 someIdentification))
   \<and> fst (onHotplugConnect exampleExternals twoLegacyDisplays 3 someIdentification) = None
   \<and> mDisplayData (snd (onHotplugConnect exampleExternals twoLegacyDisplays 3 someIdentification))
       = mDisplayData twoLegacyDisplays
   \<and> mPhysicalDisplayIdMap
       (snd (onHotplugConnect exampleExternals twoLegacyDisplays 3 someIdentification))
       = [(1, 0), (2, 1)]"
proof -
  have first: "toPhysicalDisplayId initialComposer 1 = None"
    "mPhysicalDisplayIdMap initialComposer = []"
    by (simp_all add: initialComposer_def toPhysicalDisplayId_def)
  have third: "toPhysicalDisplayId twoLegacyDisplays 3 = None"
    "mInternalHwcDisplayId twoLegacyDisplays = Some 1"
    "mExternalHwcDisplayId twoLegacyDisplays = Some 2"
    "mPhysicalDisplayIdMap twoLegacyDisplays = [(1, 0), (2, 1)]"
    "\<not> mHasMultiDisplaySupport twoLegacyDisplays"
    by (simp_all add: twoLegacyDisplays_eq toPhysicalDisplayId_def)
  have replies: "fst someIdentification = NONE" "fst noIdentification \<noteq> NONE"
    by (simp_all add: someIdentification_def noIdentification_def)
  from C3_addressing_mode [where s = initialComposer and hwcDisplayId = 1
      and ext = exampleExternals and reply = someIdentification and displayId = 0]
    C3_addressing_mode [where s = initialComposer and hwcDisplayId = 1
      and ext = exampleExternals and reply = noIdentification and displayId = 0]
    C3_addressing_mode [where s = twoLegacyDisplays and hwcDisplayId = 3
      and ext = exampleExternals and reply = someIdentification and displayId = 0]
  show ?thesis
    using first third replies by simp
qed

section \<open>Vsync filter\<close>

text \<open>
  The claim C4 as stated fails: the accepted timestamps need not increase. The display
  last saw a vsync at 5; the device then signals 9 and, after it, the earlier time 3.
  Both are accepted and forwarded, in that order.
\<close>

theorem C4_vsync_filter_counterexample:
  "toPhysicalDisplayId exampleComposer 7 = Some 0
   \<and> mDisplayData exampleComposer 0 = Some exampleData
   \<and> \<not> isVirtual exampleData
   \<and> lastHwVsync exampleData = 5
   \<and> map_option fst (forwardedVsyncs exampleComposer 7 [9, 3]) = Some [9, 3]
   \<and> sint (3 :: nsecs_t) < sint (9 :: nsecs_t)"
proof -
  from forwardedVsyncs_physical [OF exampleComposer_fields(2) exampleComposer_fields(1)
      exampleData_fields(4), of "[9, 3]"]
  have "map_option fst (forwardedVsyncs exampleComposer 7 [9, 3]) = Some [9, 3]"
    by (auto simp: exampleData_fields)
  then show ?thesis
    by (simp add: exampleComposer_fields exampleData_fields)
qed

text \<open>
  C4, amended. For every physical display, \<open>onVsync\<close> filters repeated timestamps and
  nothing else: a timestamp equal to the record's last-seen vsync timestamp is reported as
  failure and the state is left as it was (neither the stored timestamp nor the trace
  toggle changes), so a timestamp that differs from the last-seen one and arrives twice
  in a row yields exactly one forwarded event; any timestamp other than the last-seen
  one, smaller or larger, replaces the stored last-seen value, flips the trace toggle and
  is reported as success. Hence, over any run of callbacks,
  the forwarded timestamps are the arriving ones with each block of adjacent repetitions
  (starting from the stored value) collapsed to one, and no two consecutive forwarded
  timestamps are equal.
\<close>

theorem C4_vsync_filter:
  assumes "toPhysicalDisplayId s hwcDisplayId = Some displayId"
    and "mDisplayData s displayId = Some displayData"
    and "\<not> isVirtual displayData"
  shows "(timestamp = lastHwVsync displayData \<longrightarrow> onVsync s hwcDisplayId timestamp = Some (False, s))
       \<and> (timestamp \<noteq> lastHwVsync displayData \<longrightarrow>
            onVsync s hwcDisplayId timestamp =
              Some (True, setDisplayData s displayId
                     (displayData\<lparr>lastHwVsync := timestamp,
                                  vsyncTraceToggle := \<not> vsyncTraceToggle displayData\<rparr>)))
       \<and> (timestamp \<noteq> lastHwVsync displayData \<longrightarrow>
            map_option fst (forwardedVsyncs s hwcDisplayId [timestamp, timestamp]) = Some [timestamp])
       \<and> (\<exists>forwarded s'. forwardedVsyncs s hwcDisplayId timestamps = Some (forwarded, s')
             \<and> lastHwVsync displayData # forwarded
                 = remdups_adj (lastHwVsync displayData # timestamps)
             \<and> distinct_adj (lastHwVsync displayData # forwarded))"
proof (intro conjI impI)
  show "timestamp = lastHwVsync displayData \<Longrightarrow> onVsync s hwcDisplayId timestamp = Some (False, s)"
    using assms by (simp add: onVsync_physical)
  show "timestamp \<noteq> lastHwVsync displayData \<Longrightarrow> onVsync s hwcDisplayId timestamp =
              Some (True, setDisplayData s displayId
                     (displayData\<lparr>lastHwVsync := timestamp,
                                  vsyncTraceToggle := \<not> vsyncTraceToggle displayData\<rparr>))"
    using assms by (simp add: onVsync_physical)
  show "map_option fst (forwardedVsyncs s hwcDisplayId [timestamp, timestamp]) = Some [timestamp]"
    if "timestamp \<noteq> lastHwVsync displayData"
  proof -
    from forwardedVsyncs_physical [OF assms, of "[timestamp, timestamp]"] that
    show ?thesis by auto
  qed
  from forwardedVsyncs_physical [OF assms, of timestamps]
  obtain fw s' where fw: "forwardedVsyncs s hwcDisplayId timestamps = Some (fw, s')"
    "lastHwVsync displayData # fw = remdups_adj (lastHwVsync displayData # timestamps)"
    by blast
  then have "distinct_adj (lastHwVsync displayData # fw)"
    by (metis distinct_adj_remdups_adj)
  with fw show "\<exists>forwarded s'. forwardedVsyncs s hwcDisplayId timestamps = Some (forwarded, s')
             \<and> lastHwVsync displayData # forwarded
                 = remdups_adj (lastHwVsync displayData # timestamps)
             \<and> distinct_adj (lastHwVsync displayData # forwarded)"
    by blast
qed

theorem C4_vsync_filter_witness:
  "toPhysicalDisplayId exampleComposer 7 = Some 0
   \<and> mDisplayData exampleComposer 0 = Some exampleData
   \<and> \<not> isVirtual exampleData
   \<and> lastHwVsync exampleData = 5
   \<and> onVsync exampleComposer 7 5 = Some (False, exampleComposer)
   \<and> map_option fst (onVsync exampleComposer 7 9) = Some True
   \<and> map_option fst (forwardedVsyncs exampleComposer 7 [9, 9]) = Some [9]
   \<and> map_option fst (forwardedVsyncs exampleComposer 7 [5, 9, 9, 3, 3, 9]) = Some [9, 3, 9]"
proof -
  note hyps = exampleComposer_fields(2) exampleComposer_fields(1) exampleData_fields(4)
  have last: "lastHwVsync exampleData = 5" by (rule exampleData_fields)
  from C4_vsync_filter [OF hyps, of 5 "[]"] last
  have a: "onVsync exampleComposer 7 5 = Some (False, exampleComposer)" by simp
  have ne: "(9 :: nsecs_t) \<noteq> lastHwVsync exampleData"
    by (simp add: last)
  note nine = C4_vsync_filter [OF hyps, of 9 "[5, 9, 9, 3, 3, 9]"]
  from nine ne have "onVsync exampleComposer 7 9 =
      Some (True, setDisplayData exampleComposer 0
                    (exampleData\<lparr>lastHwVsync := 9,
                                 vsyncTraceToggle := \<not> vsyncTraceToggle exampleData\<rparr>))"
    by blast
  then have b: "map_option fst (onVsync exampleComposer 7 9) = Some True"
    by simp
  from nine ne
  have c: "map_option fst (forwardedVsyncs exampleComposer 7 [9, 9]) = Some [9]"
    by blast
  from nine obtain fw s' where
    run: "forwardedVsyncs exampleComposer 7 [5, 9, 9, 3, 3, 9] = Some (fw, s')"
    and fw: "lastHwVsync exampleData # fw
             = remdups_adj (lastHwVsync exampleData # [5, 9, 9, 3, 3, 9])"
    by blast
  from fw have "fw = [9, 3, 9]"
    by (simp add: last)
  with run
  have d: "map_option fst (forwardedVsyncs exampleComposer 7 [5, 9, 9, 3, 3, 9]) = Some [9, 3, 9]"
    by (simp del: forwardedVsyncs.simps)
  from hyps last a b c d show ?thesis by blast
qed

section \<open>Virtual display allocation\<close>

text \<open>
  C5. \<open>allocateVirtualDisplay\<close> returns false with the state it was given (so no record is
  created) when the resolution is not valid, and when a positive maximum dimension is
  configured and the width or the height exceeds it, whether the two are read as the
  unsigned numbers the code compares or as the signed numbers of the resolution; with a
  bound of 0 nothing exceeds. It returns false and leaves the records as they were when
  the device refuses the creation. It returns true exactly when none of these three
  holds, and then the record of the identity is virtual and holds a connected virtual
  display with the handle the device assigned.
\<close>

theorem C5_allocateVirtualDisplay:
  "(let r = allocateVirtualDisplay ext s displayId resolution format mirror reply in
     (\<not> isValid ext resolution \<longrightarrow> r = (False, s))
   \<and> (exceedsMaxDimension s resolution \<longrightarrow> r = (False, s))
   \<and> (0 < mMaxVirtualDisplayDimension s
        \<and> (uint (mMaxVirtualDisplayDimension s) < sint (width resolution)
           \<or> uint (mMaxVirtualDisplayDimension s) < sint (height resolution))
        \<longrightarrow> r = (False, s))
   \<and> (mMaxVirtualDisplayDimension s = 0 \<longrightarrow> \<not> exceedsMaxDimension s resolution)
   \<and> (fst reply \<noteq> NONE \<longrightarrow> \<not> fst r \<and> mDisplayData (snd r) = mDisplayData s)
   \<and> (\<not> fst r \<longrightarrow> mDisplayData (snd r) = mDisplayData s)
   \<and> (fst r \<longrightarrow>
        (\<exists>displayData. mDisplayData (snd r) displayId = Some displayData
           \<and> isVirtual displayData
           \<and> mIsConnected (hwcDisplay displayData)
           \<and> mType (hwcDisplay displayData) = VIRTUAL
           \<and> mId (hwcDisplay displayData) = snd reply))
   \<and> (fst r \<longleftrightarrow> isValid ext resolution \<and> \<not> exceedsMaxDimension s resolution \<and> fst reply = NONE))"
proof -
  have signed: "exceedsMaxDimension s resolution"
    if "0 < mMaxVirtualDisplayDimension s
        \<and> (uint (mMaxVirtualDisplayDimension s) < sint (width resolution)
           \<or> uint (mMaxVirtualDisplayDimension s) < sint (height resolution))"
    using that exceeds_signed unfolding exceedsMaxDimension_def by blast
  have unbounded: "\<not> exceedsMaxDimension s resolution" if "mMaxVirtualDisplayDimension s = 0"
    using that by (simp add: exceedsMaxDimension_def)
  consider (rejected) "\<not> isValid ext resolution \<or> exceedsMaxDimension s resolution"
    | (refused) "isValid ext resolution" "\<not> exceedsMaxDimension s resolution" "fst reply \<noteq> NONE"
    | (created) "isValid ext resolution" "\<not> exceedsMaxDimension s resolution" "fst reply = NONE"
    by blast
  then show ?thesis
  proof cases
    case rejected
    from allocateVirtualDisplay_rejected [OF this] signed unbounded show ?thesis
      using rejected by (auto simp: Let_def)
  next
    case refused
    from allocateVirtualDisplay_refused [OF this] signed unbounded refused show ?thesis
      by (auto simp: Let_def)
  next
    case created
    from allocateVirtualDisplay_created [OF this] signed unbounded created show ?thesis
      by (auto simp: Let_def)
  qed
qed

theorem C5_allocateVirtualDisplay_witness:
  "\<not> isValid exampleExternals \<lparr>width = 0, height = 480\<rparr>
   \<and> allocateVirtualDisplay exampleExternals boundedComposer 100 \<lparr>width = 0, height = 480\<rparr> 1
       None (NONE, 42) = (False, boundedComposer)
   \<and> exceedsMaxDimension boundedComposer \<lparr>width = 1920, height = 1080\<rparr>
   \<and> allocateVirtualDisplay exampleExternals boundedComposer 100 \<lparr>width = 1920, height = 1080\<rparr> 1
       None (NONE, 42) = (False, boundedComposer)
   \<and> isValid exampleExternals \<lparr>width = 640, height = 480\<rparr>
   \<and> \<not> exceedsMaxDimension boundedComposer \<lparr>width = 640, height = 480\<rparr>
   \<and> \<not> fst (allocateVirtualDisplay exampleExternals boundedComposer 100
              \<lparr>width = 640, height = 480\<rparr> 1 None (NO_RESOURCES, 0))
   \<and> mDisplayData (snd (allocateVirtualDisplay exampleExternals boundedComposer 100
              \<lparr>width = 640, height = 480\<rparr> 1 None (NO_RESOURCES, 0))) 100 = None
   \<and> fst (allocateVirtualDisplay exampleExternals boundedComposer 100
              \<lparr>width = 640, height = 480\<rparr> 1 None (NONE, 42))
   \<and> map_option isVirtual
       (mDisplayData (snd (allocateVirtualDisplay exampleExternals boundedComposer 100
              \<lparr>width = 640, height = 480\<rparr> 1 None (NONE, 42))) 100) = Some True
   \<and> isConnected (snd (allocateVirtualDisplay exampleExternals boundedComposer 100
              \<lparr>width = 640, height = 480\<rparr> 1 None (NONE, 42))) 100
   \<and> \<not> exceedsMaxDimension exampleComposer \<lparr>width = 1920, height = 1080\<rparr>
   \<and> fst (allocateVirtualDisplay exampleExternals exampleComposer 100
              \<lparr>width = 1920, height = 1080\<rparr> 1 None (NONE, 42))"
proof -
  have invalid: "\<not> isValid exampleExternals \<lparr>width = 0, height = 480\<rparr>"
    by (simp add: exampleExternals_def)
  have valid: "isValid exampleExternals \<lparr>width = 640, height = 480\<rparr>"
    "isValid exampleExternals \<lparr>width = 1920, height = 1080\<rparr>"
    by (simp_all add: exampleExternals_def)
  have large: "exceedsMaxDimension boundedComposer \<lparr>width = 1920, height = 1080\<rparr>"
    by (simp add: exceedsMaxDimension_def boundedComposer_def exampleComposer_def)
  have small: "\<not> exceedsMaxDimension boundedComposer \<lparr>width = 640, height = 480\<rparr>"
    by (simp add: exceedsMaxDimension_def boundedComposer_def exampleComposer_def)
  have unbounded: "\<not> exceedsMaxDimension exampleComposer \<lparr>width = 1920, height = 1080\<rparr>"
    by (simp add: exceedsMaxDimension_def exampleComposer_def)
  have fresh: "mDisplayData boundedComposer 100 = None"
    by (simp add: boundedComposer_def exampleComposer_def)
  from C5_allocateVirtualDisplay [where ext = exampleExternals and s = boundedComposer
      and displayId = 100 and resolution = "\<lparr>width = 0, height = 480\<rparr>" and format = 1
      and mirror = None and reply = "(NONE, 42)"] invalid
  have a: "allocateVirtualDisplay exampleExternals boundedComposer 100
      \<lparr>width = 0, height = 480\<rparr> 1 None (NONE, 42) = (False, boundedComposer)"
    by (simp add: Let_def)
  from C5_allocateVirtualDisplay [where ext = exampleExternals and s = boundedComposer
      and displayId = 100 and resolution = "\<lparr>width = 1920, height = 1080\<rparr>" and format = 1
      and mirror = None and reply = "(NONE, 42)"] large
  have b: "allocateVirtualDisplay exampleExternals boundedComposer 100
      \<lparr>width = 1920, height = 1080\<rparr> 1 None (NONE, 42) = (False, boundedComposer)"
    by (simp add: Let_def)
  from C5_allocateVirtualDisplay [where ext = exampleExternals and s = boundedComposer
      and displayId = 100 and resolution = "\<lparr>width = 640, height = 480\<rparr>" and format = 1
      and mirror = None and reply = "(NO_RESOURCES, 0)"] fresh
  have c: "\<not> fst (allocateVirtualDisplay exampleExternals boundedComposer 100
              \<lparr>width = 640, height = 480\<rparr> 1 None (NO_RESOURCES, 0))"
    "mDisplayData (snd (allocateVirtualDisplay exampleExternals boundedComposer 100
              \<lparr>width = 640, height = 480\<rparr> 1 None (NO_RESOURCES, 0))) 100 = None"
    by (simp_all add: Let_def)
  from C5_allocateVirtualDisplay [where ext = exampleExternals and s = boundedComposer
      and displayId = 100 and resolution = "\<lparr>width = 640, height = 480\<rparr>" and format = 1
      and mirror = None and reply = "(NONE, 42)"] valid small
  have d: "fst (allocateVirtualDisplay exampleExternals boundedComposer 100
              \<lparr>width = 640, height = 480\<rparr> 1 None (NONE, 42))"
    "map_option isVirtual
       (mDisplayData (snd (allocateVirtualDisplay exampleExternals boundedComposer 100
              \<lparr>width = 640, height = 480\<rparr> 1 None (NONE, 42))) 100) = Some True"
    "isConnected (snd (allocateVirtualDisplay exampleExternals boundedComposer 100
              \<lparr>width = 640, height = 480\<rparr> 1 None (NONE, 42))) 100"
    by (auto simp: Let_def isConnected_def)
  from C5_allocateVirtualDisplay [where ext = exampleExternals and s = exampleComposer
      and displayId = 100 and resolution = "\<lparr>width = 1920, height = 1080\<rparr>" and format = 1
      and mirror = None and reply = "(NONE, 42)"] valid unbounded
  have e: "fst (allocateVirtualDisplay exampleExternals exampleComposer 100
              \<lparr>width = 1920, height = 1080\<rparr> 1 None (NONE, 42))"
    by (simp add: Let_def)
  from invalid valid large small unbounded a b c d e show ?thesis by blast
qed

end
